theory Spec2Isabelle
  imports Main "HOL-Library.Sublist"
begin

section \<open>Python values\<close>

text \<open>
  A Python \<open>str\<close> is a sequence of Unicode code points, and \<open>len\<close> and slicing count code
  points; it is modelled as a list of code points. \<open>asc\<close> embeds an ASCII literal.
\<close>

type_synonym pystr = "nat list"

definition asc :: "string \<Rightarrow> pystr" where
  "asc s = map of_char s"

text \<open>
  A Python \<open>float\<close>: sign, mantissa and binary exponent of a finite value, an infinity with
  its sign, or a NaN. Only its truth value is computed here; parsing and formatting floats
  are builtins of Python and enter the model as parameters.
\<close>

datatype pyfloat = PyFinite bool nat int | PyInf bool | PyNaN

text \<open>
  The values \<open>json.loads\<close> produces. A \<open>dict\<close> is the list of its items in insertion order
  (its keys are distinct); a lookup takes the first item with the key.
\<close>

datatype json =
    JNull
  | JBool bool
  | JInt int
  | JFloat pyfloat
  | JStr pystr
  | JArr "json list"
  | JObj "(pystr \<times> json) list"

text \<open>
  The exception classes that occur. \<open>UnicodeEncodeError\<close> is a subclass of \<open>ValueError\<close>;
  \<open>RecursionError\<close> is not; all of them are subclasses of \<open>Exception\<close>.
\<close>

datatype pyexc =
    AttributeError
  | TypeError
  | KeyError
  | IndexError
  | ValueError
  | UnicodeEncodeError
  | RecursionError
  | OverflowError
  | RequestException
  | PrometheusApiClientException
  | OtherException

definition is_ValueError :: "pyexc \<Rightarrow> bool" where
  "is_ValueError e = (e = ValueError \<or> e = UnicodeEncodeError)"

text \<open>
  What \<open>str(e)\<close> gives for an exception: the message an external call raised it with, or
  the message of an exception that Python itself raised in this program. The latter has no
  surrogate code point: such messages quote values with \<open>repr\<close>, which escapes surrogates.
\<close>

datatype exc_message = BuiltinMessage | Message pystr

subsection \<open>Console output\<close>

text \<open>
  The console is taken to encode UTF-8 strictly: \<open>print(text)\<close> raises \<open>UnicodeEncodeError\<close>
  exactly when \<open>text\<close> has a surrogate code point (U+D800 to U+DFFF), and returns otherwise.
  What is printed is not recorded; whether \<open>print\<close> raises is. The \<open>print\<close> of a fixed text
  of the program never raises, then, and is left out. In an f-string a string
  formats as itself; \<open>str\<close> of any other JSON value has no surrogate code point (numbers,
  \<open>None\<close>, \<open>True\<close> and \<open>False\<close> are ASCII, and lists and dicts show their strings with \<open>repr\<close>).
\<close>

definition surrogate :: "nat \<Rightarrow> bool" where
  "surrogate c = (55296 \<le> c \<and> c \<le> 57343)"

definition encodable :: "pystr \<Rightarrow> bool" where
  "encodable text = list_all (\<lambda>c. \<not> surrogate c) text"

definition value_encodable :: "json \<Rightarrow> bool" where
  "value_encodable v = (case v of JStr s \<Rightarrow> encodable s | _ \<Rightarrow> True)"

definition message_encodable :: "exc_message \<Rightarrow> bool" where
  "message_encodable m = (case m of BuiltinMessage \<Rightarrow> True | Message s \<Rightarrow> encodable s)"

text \<open>
  \<open>print(f"before{v}after")\<close> and \<open>print(f"before{e}")\<close> return (rather than raise).
\<close>

definition print_value_ok :: "pystr \<Rightarrow> json \<Rightarrow> pystr \<Rightarrow> bool" where
  "print_value_ok before v after = (encodable before \<and> value_encodable v \<and> encodable after)"

definition print_exception_ok :: "pystr \<Rightarrow> exc_message \<Rightarrow> bool" where
  "print_exception_ok before m = (encodable before \<and> message_encodable m)"

subsection \<open>Truth values, dicts, iteration\<close>

fun float_truthy :: "pyfloat \<Rightarrow> bool" where
  "float_truthy (PyFinite s m e) = (m \<noteq> 0)"
| "float_truthy (PyInf s) = True"
| "float_truthy PyNaN = True"

text \<open>\<open>bool(v)\<close>: what \<open>if v\<close> and \<open>not v\<close> test.\<close>

fun truthy :: "json \<Rightarrow> bool" where
  "truthy JNull = False"
| "truthy (JBool b) = b"
| "truthy (JInt n) = (n \<noteq> 0)"
| "truthy (JFloat f) = float_truthy f"
| "truthy (JStr s) = (s \<noteq> [])"
| "truthy (JArr xs) = (xs \<noteq> [])"
| "truthy (JObj kvs) = (kvs \<noteq> [])"

text \<open>\<open>d.get(k, default)\<close>, \<open>k in d\<close> and \<open>d[k]\<close> on a value known to be a \<open>dict\<close>.\<close>

definition obj_get :: "(pystr \<times> json) list \<Rightarrow> pystr \<Rightarrow> json \<Rightarrow> json" where
  "obj_get kvs k d = (case map_of kvs k of None \<Rightarrow> d | Some v \<Rightarrow> v)"

definition obj_has :: "(pystr \<times> json) list \<Rightarrow> pystr \<Rightarrow> bool" where
  "obj_has kvs k = (map_of kvs k \<noteq> None)"

definition obj_index :: "(pystr \<times> json) list \<Rightarrow> pystr \<Rightarrow> pyexc + json" where
  "obj_index kvs k = (case map_of kvs k of None \<Rightarrow> Inl KeyError | Some v \<Rightarrow> Inr v)"

text \<open>
  \<open>x.get(k, default)\<close> on any value: only a \<open>dict\<close> has the attribute \<open>get\<close>.
\<close>

fun dict_get :: "json \<Rightarrow> pystr \<Rightarrow> json \<Rightarrow> pyexc + json" where
  "dict_get (JObj kvs) k d = Inr (obj_get kvs k d)"
| "dict_get _ k d = Inl AttributeError"

text \<open>
  \<open>for x in v\<close>: a list yields its elements, a \<open>dict\<close> its keys, a \<open>str\<close> its characters as
  one-character strings; \<open>None\<close>, booleans and numbers are not iterable.
\<close>

fun py_iter :: "json \<Rightarrow> pyexc + json list" where
  "py_iter (JArr xs) = Inr xs"
| "py_iter (JObj kvs) = Inr (map (\<lambda>kv. JStr (fst kv)) kvs)"
| "py_iter (JStr s) = Inr (map (\<lambda>c. JStr [c]) s)"
| "py_iter _ = Inl TypeError"

subsection \<open>\<open>str.replace\<close>\<close>

text \<open>
  The scan of \<open>str.replace\<close> for a non-empty pattern: left to right, every occurrence that
  does not overlap an earlier replaced one.
\<close>

fun replace_scan :: "'a list \<Rightarrow> 'a list \<Rightarrow> 'a list \<Rightarrow> 'a list" where
  "replace_scan [] old new = []"
| "replace_scan (c # cs) old new =
     (if prefix old (c # cs) then new @ replace_scan (drop (length old - 1) cs) old new
      else c # replace_scan cs old new)"

text \<open>With an empty pattern Python inserts \<open>new\<close> before every character and at the end.\<close>

definition str_replace :: "'a list \<Rightarrow> 'a list \<Rightarrow> 'a list \<Rightarrow> 'a list" where
  "str_replace s old new =
     (if old = [] then concat (map (\<lambda>c. new @ [c]) s) @ new else replace_scan s old new)"

section \<open>Configuration\<close>

text \<open>The module-level values read with \<open>os.environ.get\<close>: \<open>None\<close> or a string.\<close>

record config =
  PROMETHEUS_URL :: "pystr option"
  DISCORD_WEBHOOK_URL :: "pystr option"
  GEMINI_API_KEY :: "pystr option"
  GRAFANA_URL :: "pystr option"
  GRAFANA_API_KEY :: "pystr option"
  GRAFANA_PUBLIC_DOMAIN :: "pystr option"
  DASHBOARD_UID :: "pystr option"

definition env_truthy :: "pystr option \<Rightarrow> bool" where
  "env_truthy v = (case v of None \<Rightarrow> False | Some s \<Rightarrow> s \<noteq> [])"

section \<open>\<open>get_all_queries_from_grafana\<close>\<close>

record query_item =
  title :: json
  query :: pystr

record http_request =
  url :: pystr
  headers :: "(pystr \<times> pystr) list"
  timeout :: nat

text \<open>
  What \<open>requests.get\<close> does: it raises an exception, of some class and with some message,
  or returns a response with a status code and a body; \<open>response.json()\<close> is the parsed
  body, or raises: \<open>ValueError\<close> when the body is not JSON, \<open>RecursionError\<close> when it is
  nested too deep.
\<close>

datatype http_outcome = GetRaises pyexc pystr | Response int "(pyexc \<times> pystr) + json"

definition default_title :: pystr where
  "default_title = [51228, 47785, 32, 50630, 45716, 32, 54056, 45328]"

text \<open>The fixed words of the messages the function prints around a value.\<close>

definition request_log_prefix :: pystr where
  "request_log_prefix =
     [71, 114, 97, 102, 97, 110, 97, 32, 65, 80, 73, 50640, 32, 50836, 52397, 51012, 32,
      48372, 45253, 45768, 45796, 32, 40, 72, 111, 115, 116, 58, 32]"

definition found_prefix :: pystr where
  "found_prefix = [32, 32, 45, 32, 48156, 44204, 58, 32, 91]"

definition found_suffix :: pystr where
  "found_suffix = [93, 32, 54056, 45328, 51032, 32, 53244, 47532]"

definition network_error_prefix :: pystr where
  "network_error_prefix =
     [69, 82, 82, 79, 82, 58, 32, 71, 114, 97, 102, 97, 110, 97, 32, 65, 80, 73, 32, 54840,
      52636, 32, 51473, 32, 45348, 53944, 50892, 53356, 32, 50640, 47084, 32, 48156, 49373,
      58, 32]"

definition parse_error_prefix :: pystr where
  "parse_error_prefix =
     [69, 82, 82, 79, 82, 58, 32, 71, 114, 97, 102, 97, 110, 97, 32, 51025, 45813, 51012, 32,
      74, 83, 79, 78, 51004, 47196, 32, 54028, 49905, 54616, 45716, 32, 45936, 32, 49892,
      54056, 54664, 49845, 45768, 45796, 58, 32]"

definition substitute_variables :: "pystr \<Rightarrow> pystr" where
  "substitute_variables q =
     str_replace (str_replace q (asc ''$__range'') (asc ''24h'')) (asc ''$__interval'') (asc ''5m'')"

definition is_prometheus_panel :: "json \<Rightarrow> bool" where
  "is_prometheus_panel datasource_info =
     ((case datasource_info of
         JObj ds \<Rightarrow> obj_get ds (asc ''type'') JNull = JStr (asc ''prometheus'')
       | _ \<Rightarrow> False)
      \<or> datasource_info = JNull)"

text \<open>
  The body of the loop over the targets of a panel, with the \<open>print\<close> that follows the
  \<open>append\<close>: when it raises, the exception leaves the loop.
\<close>

fun process_target :: "json \<Rightarrow> json \<Rightarrow> query_item list \<Rightarrow> pyexc + query_item list" where
  "process_target panel_title (JObj t) queries_with_titles =
     (if \<not> truthy (obj_get t (asc ''hide'') JNull) \<and> obj_has t (asc ''expr'')
         \<and> truthy (obj_get t (asc ''expr'') JNull)
      then (case obj_index t (asc ''expr'') of
              Inl e \<Rightarrow> Inl e
            | Inr q \<Rightarrow>
                (case q of
                   JStr s \<Rightarrow>
                     if print_value_ok found_prefix panel_title found_suffix
                     then Inr (queries_with_titles
                               @ [\<lparr>title = panel_title, query = substitute_variables s\<rparr>])
                     else Inl UnicodeEncodeError
                 | _ \<Rightarrow> Inl AttributeError))
      else Inr queries_with_titles)"
| "process_target panel_title _ queries_with_titles = Inl AttributeError"

fun targets_loop :: "json \<Rightarrow> json list \<Rightarrow> query_item list \<Rightarrow> pyexc + query_item list" where
  "targets_loop panel_title [] queries_with_titles = Inr queries_with_titles"
| "targets_loop panel_title (t # ts) queries_with_titles =
     (case process_target panel_title t queries_with_titles of
        Inl e \<Rightarrow> Inl e
      | Inr acc \<Rightarrow> targets_loop panel_title ts acc)"

text \<open>
  The body of the loop over the panels. \<open>panel_title\<close> and \<open>datasource_info\<close> are its two local
  variables; the missing \<open>datasource\<close> field defaults to the empty \<open>dict\<close>.
\<close>

definition panel_title :: "(pystr \<times> json) list \<Rightarrow> json" where
  "panel_title p = obj_get p (asc ''title'') (JStr default_title)"

definition datasource_info :: "(pystr \<times> json) list \<Rightarrow> json" where
  "datasource_info p = obj_get p (asc ''datasource'') (JObj [])"

fun process_panel :: "json \<Rightarrow> query_item list \<Rightarrow> pyexc + query_item list" where
  "process_panel (JObj p) queries_with_titles =
     (if obj_has p (asc ''targets'') \<and> is_prometheus_panel (datasource_info p)
      then (case obj_index p (asc ''targets'') of
              Inl e \<Rightarrow> Inl e
            | Inr targets \<Rightarrow>
                (case py_iter targets of
                   Inl e \<Rightarrow> Inl e
                 | Inr ts \<Rightarrow> targets_loop (panel_title p) ts queries_with_titles))
      else Inr queries_with_titles)"
| "process_panel _ queries_with_titles = Inl AttributeError"

fun panels_loop :: "json list \<Rightarrow> query_item list \<Rightarrow> pyexc + query_item list" where
  "panels_loop [] queries_with_titles = Inr queries_with_titles"
| "panels_loop (p # ps) queries_with_titles =
     (case process_panel p queries_with_titles of
        Inl e \<Rightarrow> Inl e
      | Inr acc \<Rightarrow> panels_loop ps acc)"

text \<open>From \<open>dashboard_data = response.json()\<close> to \<open>return queries_with_titles\<close>.\<close>

definition extract_queries :: "json \<Rightarrow> pyexc + query_item list" where
  "extract_queries dashboard_data =
     (case dict_get dashboard_data (asc ''dashboard'') (JObj []) of
        Inl e \<Rightarrow> Inl e
      | Inr dashboard \<Rightarrow>
          (case dict_get dashboard (asc ''panels'') (JArr []) of
             Inl e \<Rightarrow> Inl e
           | Inr panels \<Rightarrow>
               (case py_iter panels of
                  Inl e \<Rightarrow> Inl e
                | Inr ps \<Rightarrow> panels_loop ps [])))"

text \<open>
  The \<open>try\<close> block, given what \<open>requests.get\<close> did: the sequence it returns, or the exception
  that leaves it, with its message. On a status other than 200 the block prints the status
  and the start of the body and returns the empty sequence; should that \<open>print\<close> raise, its
  \<open>UnicodeEncodeError\<close> is caught below and the function returns the empty sequence as well.
\<close>

definition grafana_try :: "http_outcome \<Rightarrow> (pyexc \<times> exc_message) + query_item list" where
  "grafana_try outcome =
     (case outcome of
        GetRaises e m \<Rightarrow> Inl (e, Message m)
      | Response status_code body \<Rightarrow>
          if status_code \<noteq> 200 then Inr []
          else (case body of
                  Inl em \<Rightarrow> Inl (fst em, Message (snd em))
                | Inr dashboard_data \<Rightarrow>
                    (case extract_queries dashboard_data of
                       Inl e \<Rightarrow> Inl (e, BuiltinMessage)
                     | Inr queries_with_titles \<Rightarrow> Inr queries_with_titles)))"

text \<open>
  The two \<open>except\<close> clauses. Each prints the exception before it returns the empty sequence;
  an exception of another class, and a \<open>UnicodeEncodeError\<close> raised by the \<open>print\<close> of a
  clause, reach the caller.
\<close>

definition grafana_except :: "(pyexc \<times> exc_message) + query_item list \<Rightarrow> pyexc + query_item list" where
  "grafana_except r =
     (case r of
        Inl em \<Rightarrow>
          if fst em = RequestException
          then (if print_exception_ok network_error_prefix (snd em) then Inr []
                else Inl UnicodeEncodeError)
          else if is_ValueError (fst em)
          then (if print_exception_ok parse_error_prefix (snd em) then Inr []
                else Inl UnicodeEncodeError)
          else Inl (fst em)
      | Inr v \<Rightarrow> Inr v)"

definition grafana_request :: "pystr \<Rightarrow> pystr \<Rightarrow> pystr \<Rightarrow> pystr \<Rightarrow> http_request" where
  "grafana_request grafana_url api_key public_domain dashboard_uid =
     \<lparr>url = grafana_url @ asc ''/api/dashboards/uid/'' @ dashboard_uid,
      headers = [(asc ''Authorization'', asc ''Bearer '' @ api_key),
                 (asc ''Accept'', asc ''application/json''),
                 (asc ''Host'', public_domain)],
      timeout = 10\<rparr>"

text \<open>The line printed before the \<open>try\<close> block: the public domain and the URL.\<close>

definition request_log :: "pystr \<Rightarrow> pystr \<Rightarrow> pystr" where
  "request_log public_domain api_url =
     request_log_prefix @ public_domain @ asc ''): '' @ api_url"

text \<open>
  The function: its result (\<open>Inl\<close> an exception that reaches the caller) and the HTTP
  requests it issued. The \<open>print\<close> of the request line is outside the \<open>try\<close> block: when it
  raises, no request is issued.
\<close>

definition get_all_queries_from_grafana ::
  "config \<Rightarrow> (http_request \<Rightarrow> http_outcome) \<Rightarrow> pystr option
     \<Rightarrow> (pyexc + query_item list) \<times> http_request list" where
  "get_all_queries_from_grafana cfg http_get dashboard_uid =
     (if \<not> (env_truthy (GRAFANA_URL cfg) \<and> env_truthy (GRAFANA_API_KEY cfg)
             \<and> env_truthy (GRAFANA_PUBLIC_DOMAIN cfg) \<and> env_truthy dashboard_uid)
      then (Inr [], [])
      else
        (case (GRAFANA_URL cfg, GRAFANA_API_KEY cfg, GRAFANA_PUBLIC_DOMAIN cfg, dashboard_uid) of
           (Some grafana_url, Some api_key, Some public_domain, Some uid) \<Rightarrow>
             if \<not> encodable
                    (request_log public_domain
                       (url (grafana_request grafana_url api_key public_domain uid)))
             then (Inl UnicodeEncodeError, [])
             else (grafana_except
                     (grafana_try
                        (http_get (grafana_request grafana_url api_key public_domain uid))),
                   [grafana_request grafana_url api_key public_domain uid])
         | _ \<Rightarrow> (Inr [], [])))"

section \<open>\<open>get_metrics\<close>\<close>

text \<open>
  The builtins of Python the collector calls: \<open>str(v)\<close> of a value that is not a string (a
  string formats as itself), \<open>float(v)\<close>, which raises for a value it cannot coerce, and the
  format \<open>:.2f\<close> of a float.
\<close>

record py_builtins =
  py_str :: "json \<Rightarrow> pystr"
  py_float :: "json \<Rightarrow> pyexc + pyfloat"
  format_2f :: "pyfloat \<Rightarrow> pystr"

definition format_value :: "py_builtins \<Rightarrow> json \<Rightarrow> pystr" where
  "format_value bi v = (case v of JStr s \<Rightarrow> s | _ \<Rightarrow> py_str bi v)"

fun str_join :: "'a list \<Rightarrow> 'a list list \<Rightarrow> 'a list" where
  "str_join sep [] = []"
| "str_join sep [x] = x"
| "str_join sep (x # y # ys) = x @ sep @ str_join sep (y # ys)"

text \<open>\<open>v[1]\<close>.\<close>

fun py_index1 :: "json \<Rightarrow> pyexc + json" where
  "py_index1 (JArr xs) = (if 1 < length xs then Inr (xs ! 1) else Inl IndexError)"
| "py_index1 (JStr s) = (if 1 < length s then Inr (JStr [s ! 1]) else Inl IndexError)"
| "py_index1 (JObj kvs) = Inl KeyError"
| "py_index1 _ = Inl TypeError"

definition report_header :: "config \<Rightarrow> pystr" where
  "report_header cfg =
     [35, 35, 32, 128200, 32, 71, 114, 97, 102, 97, 110, 97, 32, 45824, 49884, 48372, 46300,
      32, 51088, 46041, 32, 50836, 50557, 32, 48372, 44256, 49436, 10]
     @ asc ''(Dashboard: ''
     @ (case DASHBOARD_UID cfg of None \<Rightarrow> asc ''None'' | Some uid \<Rightarrow> uid)
     @ [41, 10, 10]"

definition section_header :: "py_builtins \<Rightarrow> json \<Rightarrow> pystr" where
  "section_header bi t = asc ''### '' @ format_value bi t @ [10]"

definition no_data_marker :: pystr where
  "no_data_marker = [45, 32, 40, 45936, 51060, 53552, 32, 50630, 51020, 41, 10, 10]"

definition query_failed_marker :: pystr where
  "query_failed_marker =
     [32, 32, 45, 32, 40, 53244, 47532, 32, 49892, 54665, 32, 51473, 32, 50640, 47084, 32,
      48156, 49373, 41, 10, 10]"

definition unknown_error_marker :: pystr where
  "unknown_error_marker =
     [32, 32, 45, 32, 40, 50508, 32, 49688, 32, 50630, 45716, 32, 50640, 47084, 32, 48156,
      49373, 41, 10, 10]"

text \<open>The fixed words of the messages the collector prints around a value.\<close>

definition running_prefix :: pystr where
  "running_prefix =
     [80, 114, 111, 109, 101, 116, 104, 101, 117, 115, 50640, 32, 53244, 47532, 32, 49892,
      54665, 32, 51473, 58, 32, 91]"

definition query_failed_log_prefix :: pystr where
  "query_failed_log_prefix = [32, 32, 45, 32, 53244, 47532, 32, 49892, 54056, 58, 32]"

definition unknown_error_log_prefix :: pystr where
  "unknown_error_log_prefix =
     [32, 32, 45, 32, 50508, 32, 49688, 32, 50630, 45716, 32, 50640, 47084, 58, 32]"

definition label_str :: "py_builtins \<Rightarrow> (pystr \<times> json) list \<Rightarrow> pystr" where
  "label_str bi labels =
     (if str_join (asc '', '')
           (map (\<lambda>kv. fst kv @ asc ''='' @ [34] @ format_value bi (snd kv) @ [34])
                (filter (\<lambda>kv. fst kv \<noteq> asc ''__name__'') labels)) = []
      then asc ''Total''
      else str_join (asc '', '')
           (map (\<lambda>kv. fst kv @ asc ''='' @ [34] @ format_value bi (snd kv) @ [34])
                (filter (\<lambda>kv. fst kv \<noteq> asc ''__name__'') labels)))"

definition sample_line :: "pystr \<Rightarrow> pystr \<Rightarrow> pystr" where
  "sample_line labels_text value_text =
     asc ''- `'' @ labels_text @ asc ''`: **'' @ value_text @ asc ''**'' @ [10]"

text \<open>
  The body of the loop over the series of one result: the report with the line appended, or
  the exception raised, in which case nothing was appended by this iteration.
\<close>

fun process_metric :: "py_builtins \<Rightarrow> json \<Rightarrow> pystr \<Rightarrow> pyexc + pystr" where
  "process_metric bi (JObj m) report_data =
     (case obj_get m (asc ''metric'') (JObj []) of
        JObj labels \<Rightarrow>
          (case obj_index m (asc ''value'') of
             Inl e \<Rightarrow> Inl e
           | Inr pair \<Rightarrow>
               (case py_index1 pair of
                  Inl e \<Rightarrow> Inl e
                | Inr raw \<Rightarrow>
                    (case py_float bi raw of
                       Inl e \<Rightarrow> Inl e
                     | Inr v \<Rightarrow>
                         Inr (report_data @ sample_line (label_str bi labels) (format_2f bi v)))))
      | _ \<Rightarrow> Inl AttributeError)"
| "process_metric bi _ report_data = Inl AttributeError"

text \<open>
  The loop over the series: the report when the loop ended, with the exception that ended
  it, if any. The lines appended before the exception stay in the report.
\<close>

fun metrics_loop :: "py_builtins \<Rightarrow> json list \<Rightarrow> pystr \<Rightarrow> pystr \<times> pyexc option" where
  "metrics_loop bi [] report_data = (report_data, None)"
| "metrics_loop bi (m # ms) report_data =
     (case process_metric bi m report_data of
        Inl e \<Rightarrow> (report_data, Some e)
      | Inr report_data' \<Rightarrow> metrics_loop bi ms report_data')"

text \<open>
  The two \<open>except\<close> clauses of the loop over the queries. Each prints the exception and then
  appends its marker; when the \<open>print\<close> raises, nothing is appended and the
  \<open>UnicodeEncodeError\<close> leaves the function.
\<close>

definition query_except :: "pyexc \<Rightarrow> exc_message \<Rightarrow> pystr \<Rightarrow> pyexc + pystr" where
  "query_except e m report_data =
     (if e = PrometheusApiClientException
      then (if print_exception_ok query_failed_log_prefix m
            then Inr (report_data @ query_failed_marker)
            else Inl UnicodeEncodeError)
      else (if print_exception_ok unknown_error_log_prefix m
            then Inr (report_data @ unknown_error_marker)
            else Inl UnicodeEncodeError))"

text \<open>
  The \<open>try\<close> block for one query from the call of the backend on, given what
  \<open>prom.custom_query\<close> did (\<open>Inl\<close>: it raised, with class and message), with its \<open>except\<close>
  clauses.
\<close>

definition query_try :: "py_builtins \<Rightarrow> (pyexc \<times> pystr) + json \<Rightarrow> pystr \<Rightarrow> pyexc + pystr" where
  "query_try bi result report_data =
     (case result of
        Inl em \<Rightarrow> query_except (fst em) (Message (snd em)) report_data
      | Inr metrics \<Rightarrow>
          if \<not> truthy metrics then Inr (report_data @ no_data_marker)
          else (case py_iter metrics of
                  Inl e \<Rightarrow> query_except e BuiltinMessage report_data
                | Inr ms \<Rightarrow>
                    (case metrics_loop bi ms report_data of
                       (report_data', Some e) \<Rightarrow> query_except e BuiltinMessage report_data'
                     | (report_data', None) \<Rightarrow> Inr (report_data' @ [10]))))"

text \<open>
  The body of the loop over the queries. The metric backend is a function of its state and
  the query, giving what \<open>prom.custom_query\<close> does and the next state. The \<open>print\<close> that
  opens the \<open>try\<close> block shows the title: when it raises, the backend is not called and
  the second \<open>except\<close> clause handles the \<open>UnicodeEncodeError\<close>.
\<close>

definition process_item ::
  "py_builtins \<Rightarrow> ('w \<Rightarrow> pystr \<Rightarrow> ((pyexc \<times> pystr) + json) \<times> 'w) \<Rightarrow> 'w \<Rightarrow> query_item \<Rightarrow> pystr
     \<Rightarrow> (pyexc + pystr) \<times> 'w" where
  "process_item bi custom_query w item report_data =
     (if print_value_ok running_prefix (title item) [93]
      then (case custom_query w (query item) of
              (result, w') \<Rightarrow>
                (query_try bi result (report_data @ section_header bi (title item)), w'))
      else (query_except UnicodeEncodeError BuiltinMessage
              (report_data @ section_header bi (title item)), w))"

fun items_loop ::
  "py_builtins \<Rightarrow> ('w \<Rightarrow> pystr \<Rightarrow> ((pyexc \<times> pystr) + json) \<times> 'w) \<Rightarrow> 'w \<Rightarrow> query_item list
     \<Rightarrow> pystr \<Rightarrow> (pyexc + pystr) \<times> 'w" where
  "items_loop bi custom_query w [] report_data = (Inr report_data, w)"
| "items_loop bi custom_query w (item # items) report_data =
     (case process_item bi custom_query w item report_data of
        (Inl e, w') \<Rightarrow> (Inl e, w')
      | (Inr report_data', w') \<Rightarrow> items_loop bi custom_query w' items report_data')"

text \<open>
  The function: \<open>None\<close>, the report, or the exception that leaves it: one the extractor let
  through, or the \<open>UnicodeEncodeError\<close> of a \<open>print\<close> in an \<open>except\<close> clause.
\<close>

definition get_metrics ::
  "config \<Rightarrow> py_builtins \<Rightarrow> (http_request \<Rightarrow> http_outcome)
     \<Rightarrow> ('w \<Rightarrow> pystr \<Rightarrow> ((pyexc \<times> pystr) + json) \<times> 'w) \<Rightarrow> 'w
     \<Rightarrow> (pyexc + pystr option) \<times> 'w" where
  "get_metrics cfg bi http_get custom_query w =
     (case fst (get_all_queries_from_grafana cfg http_get (DASHBOARD_UID cfg)) of
        Inl e \<Rightarrow> (Inl e, w)
      | Inr all_queries \<Rightarrow>
          if all_queries = [] then (Inr None, w)
          else (case items_loop bi custom_query w all_queries (report_header cfg) of
                  (Inl e, w') \<Rightarrow> (Inl e, w')
                | (Inr report_data, w') \<Rightarrow> (Inr (Some report_data), w')))"

section \<open>\<open>generate_report_with_gemini\<close>\<close>

definition no_api_key_notice :: pystr where
  "no_api_key_notice =
     [71, 101, 109, 105, 110, 105, 32, 65, 80, 73, 32, 53412, 44032, 32, 49444, 51221, 46104,
      51648, 32, 50506, 50520, 49845, 45768, 45796, 46]"

definition no_metrics_notice :: pystr where
  "no_metrics_notice =
     [47700, 53944, 47533, 32, 45936, 51060, 53552, 47484, 32, 49688, 51665, 54616, 51648, 32,
      47803, 54644, 32, 47532, 54252, 53944, 47484, 32, 49373, 49457, 54624, 32, 49688, 32,
      50630, 49845, 45768, 45796, 46]"

definition gemini_error_prefix :: pystr where
  "gemini_error_prefix =
     [71, 101, 109, 105, 110, 105, 32, 65, 80, 73, 32, 54840, 52636, 32, 51473, 32, 50640,
      47084, 44032, 32, 48156, 49373, 54664, 49845, 45768, 45796, 58, 32]"

text \<open>The fixed words of the message the \<open>except\<close> clause prints before the exception.\<close>

definition gemini_log_prefix :: pystr where
  "gemini_log_prefix =
     [69, 82, 82, 79, 82, 58, 32, 71, 101, 109, 105, 110, 105, 32, 47532, 54252, 53944, 32,
      49373, 49457, 32, 51473, 32, 50640, 47084, 32, 48156, 49373, 58, 32]"

text \<open>The text of the prompt before and after the interpolated \<open>metrics_text\<close>.\<close>

definition prompt_before_data :: pystr where
  "prompt_before_data =
    [10, 32, 32, 32, 32, 32, 32, 32, 32, 45817, 49888, 51008, 32, 53216, 48260, 45348,
     54000, 49828, 32, 54856, 49436, 48260, 32, 53364, 47084, 49828, 53552, 47484, 32,
     44288, 47532, 54616, 45716, 32, 49884, 49828, 53596, 32, 44288, 47532, 32, 51204,
     47928, 44032, 51077, 45768, 45796, 46, 10, 32, 32, 32, 32, 32, 32, 32, 32, 50500,
     47000, 50640, 32, 51228, 44277, 46108, 32, 71, 114, 97, 102, 97, 110, 97, 32, 45824,
     49884, 48372, 46300, 51032, 32, 45936, 51060, 53552, 47484, 32, 48516, 49437, 54616,
     50668, 32, 54620, 44397, 50612, 47196, 32, 46108, 32, 44592, 49696, 51201, 51064, 32,
     49345, 53468, 32, 48372, 44256, 49436, 47484, 32, 51089, 49457, 54644, 51452, 49464,
     50836, 46, 10, 10, 32, 32, 32, 32, 32, 32, 32, 32, 48372, 44256, 49436, 45716, 32, 68,
     105, 115, 99, 111, 114, 100, 50640, 32, 44172, 49884, 46112, 32, 44163, 51060, 48064,
     47196, 44, 32, 47560, 53356, 45796, 50868, 32, 47928, 48277, 51012, 32, 51201, 44537,
     51201, 51004, 47196, 32, 49324, 50857, 54616, 50668, 32, 44032, 46021, 49457, 51012,
     32, 45458, 50668, 51452, 49464, 50836, 46, 32, 40, 50696, 58, 32, 42, 42, 44, 32, 35,
     35, 35, 44, 32, 96, 44, 32, 62, 32, 46321, 41, 10, 32, 32, 32, 32, 32, 32, 32, 32, 10,
     32, 32, 32, 32, 32, 32, 32, 32, 48372, 44256, 49436, 50640, 45716, 32, 45796, 51020,
     32, 45236, 50857, 51060, 32, 54252, 54632, 46104, 50612, 50556, 32, 54633, 45768,
     45796, 58, 10, 32, 32, 32, 32, 32, 32, 32, 32, 49, 46, 32, 32, 42, 42, 51204, 52404,
     32, 49884, 49828, 53596, 32, 49345, 53468, 32, 50836, 50557, 42, 42, 58, 32, 53364,
     47084, 49828, 53552, 44032, 32, 50504, 51221, 51201, 51064, 51648, 44, 32, 51452,
     51032, 44032, 32, 54596, 50836, 54620, 32, 48512, 48516, 51060, 32, 51080, 45716,
     51648, 32, 44036, 44208, 54616, 44172, 32, 50836, 50557, 54633, 45768, 45796, 46, 10,
     32, 32, 32, 32, 32, 32, 32, 32, 50, 46, 32, 32, 42, 42, 51452, 50836, 32, 47700,
     53944, 47533, 32, 48516, 49437, 42, 42, 58, 32, 44033, 32, 54637, 47785, 40, 67, 80,
     85, 44, 32, 47700, 47784, 47532, 44, 32, 46356, 49828, 53356, 44, 32, 45348, 53944,
     50892, 53356, 32, 46321, 41, 51012, 32, 54644, 49437, 54616, 44256, 44, 32, 54217,
     49548, 50752, 32, 45796, 47480, 32, 53945, 51060, 49324, 54637, 51060, 45208, 32,
     51076, 44228, 52824, 50640, 32, 44032, 44620, 50868, 32, 44050, 51060, 32, 51080,
     45716, 51648, 32, 50616, 44553, 54633, 45768, 45796, 46, 10, 32, 32, 32, 32, 32, 32,
     32, 32, 51, 46, 32, 32, 42, 42, 51104, 51116, 51201, 32, 47928, 51228, 51216, 32,
     48143, 32, 44428, 51109, 32, 49324, 54637, 42, 42, 58, 32, 45936, 51060, 53552, 32,
     52628, 49464, 47484, 32, 44592, 48152, 51004, 47196, 32, 50526, 51004, 47196, 32,
     48156, 49373, 54624, 32, 49688, 32, 51080, 45716, 32, 47928, 51228, 40, 50696, 58, 32,
     46356, 49828, 53356, 32, 50857, 47049, 32, 48512, 51313, 32, 44221, 44256, 44, 32,
     53945, 51221, 32, 50892, 53356, 47196, 46300, 51032, 32, 44284, 46020, 54620, 32,
     47532, 49548, 49828, 32, 49324, 50857, 32, 46321, 41, 47484, 32, 51648, 51201, 54616,
     44256, 44, 32, 54596, 50836, 54620, 32, 51312, 52824, 45208, 32, 54869, 51064, 54644,
     48380, 32, 49324, 54637, 51012, 32, 51228, 50504, 54644, 51452, 49464, 50836, 46, 10,
     10, 32, 32, 32, 32, 32, 32, 32, 32, 45, 45, 45, 32, 45936, 51060, 53552, 32, 45, 45,
     45, 10, 32, 32, 32, 32, 32, 32, 32, 32]"

definition prompt_after_data :: pystr where
  "prompt_after_data =
    [10, 32, 32, 32, 32, 32, 32, 32, 32, 45, 45, 45, 32, 48372, 44256, 49436, 32, 49884,
     51089, 32, 45, 45, 45, 10, 32, 32, 32, 32, 32, 32, 32, 32]"


text \<open>
  The function: what it returns (\<open>Inl\<close> an exception that reaches the caller) and the calls
  it made to the generative service. The service is a function of the model name and the
  prompt: \<open>Inr\<close> the text of the response, or \<open>Inl\<close> the message of the exception that
  creating the model, the call or reading the text raised. The \<open>except\<close> clause prints the
  exception before it returns the error string; when that \<open>print\<close> raises, the
  \<open>UnicodeEncodeError\<close> leaves the function.
\<close>

definition generate_report_with_gemini ::
  "config \<Rightarrow> (pystr \<Rightarrow> pystr \<Rightarrow> pystr + pystr) \<Rightarrow> pystr option
     \<Rightarrow> (pyexc + pystr) \<times> (pystr \<times> pystr) list" where
  "generate_report_with_gemini cfg generate_content metrics_text =
     (if \<not> env_truthy (GEMINI_API_KEY cfg) then (Inr no_api_key_notice, [])
      else if \<not> env_truthy metrics_text then (Inr no_metrics_notice, [])
      else
        (case metrics_text of
           None \<Rightarrow> (Inr no_metrics_notice, [])
         | Some text \<Rightarrow>
             (case generate_content (asc ''gemini-2.5-pro'')
                     (prompt_before_data @ text @ prompt_after_data) of
                Inr response_text \<Rightarrow>
                  (Inr response_text,
                   [(asc ''gemini-2.5-pro'', prompt_before_data @ text @ prompt_after_data)])
              | Inl e \<Rightarrow>
                  (if print_exception_ok gemini_log_prefix (Message e)
                   then Inr (gemini_error_prefix @ e)
                   else Inl UnicodeEncodeError,
                   [(asc ''gemini-2.5-pro'', prompt_before_data @ text @ prompt_after_data)]))))"

section \<open>\<open>send_to_discord\<close>\<close>







definition discord_error_prefix :: pystr where
  "discord_error_prefix =
     [69, 82, 82, 79, 82, 58, 32, 68, 105, 115, 99, 111, 114, 100, 32, 51204, 49569, 32,
      51473, 32, 50640, 47084, 32, 48156, 49373, 58, 32]"



section \<open>Specification-level definitions\<close>

text \<open>
  The substitution as the specification words it: one pass over the expression in which
  every occurrence of \<open>$__range\<close> becomes \<open>24h\<close> and every occurrence of \<open>$__interval\<close> becomes
  \<open>5m\<close>. It is compared with \<open>substitute_variables\<close>, which is the code's two calls of
  \<open>str.replace\<close>.
\<close>

fun tokens_replaced_spec :: "pystr \<Rightarrow> pystr" where
  "tokens_replaced_spec [] = []"
| "tokens_replaced_spec (c # cs) =
     (if prefix (asc ''$__range'') (c # cs) then asc ''24h'' @ tokens_replaced_spec (drop 7 cs)
      else if prefix (asc ''$__interval'') (c # cs)
        then asc ''5m'' @ tokens_replaced_spec (drop 10 cs)
      else c # tokens_replaced_spec cs)"

text \<open>
  The example of the specification: a dashboard with one panel titled \<open>CPU\<close> that has one
  target with \<open>expr\<close> \<open>sum(rate($__range))\<close> and \<open>hide\<close> false; \<open>extra\<close> holds the further fields
  of the panel. \<open>example_config\<close> sets every configuration value.
\<close>

definition cpu_dashboard :: "(pystr \<times> json) list \<Rightarrow> json" where
  "cpu_dashboard extra =
     JObj [(asc ''dashboard'',
            JObj [(asc ''panels'',
                   JArr [JObj ([(asc ''title'', JStr (asc ''CPU'')),
                                (asc ''targets'',
                                 JArr [JObj [(asc ''expr'', JStr (asc ''sum(rate($__range))'')),
                                             (asc ''hide'', JBool False)]])]
                               @ extra)])])]"

definition example_config :: config where
  "example_config =
     \<lparr>PROMETHEUS_URL = Some (asc ''http://prometheus:9090''),
      DISCORD_WEBHOOK_URL = Some (asc ''https://discord.example/webhook''),
      GEMINI_API_KEY = Some (asc ''gemini-key''),
      GRAFANA_URL = Some (asc ''http://grafana''),
      GRAFANA_API_KEY = Some (asc ''grafana-key''),
      GRAFANA_PUBLIC_DOMAIN = Some (asc ''grafana.example''),
      DASHBOARD_UID = Some (asc ''abcdef123'')\<rparr>"

text \<open>
  Further example bodies. A dashboard of two panels: \<open>Load\<close>, with no \<open>datasource\<close> field and
  the target \<open>up\<close>, and \<open>CPU\<close>, with a datasource of type \<open>prometheus\<close> and the target
  \<open>rate(x[$__interval])\<close>. A dashboard whose one panel, with \<open>datasource\<close> \<open>null\<close> and the
  target \<open>up\<close>, has a title of one surrogate code point. A dashboard whose target has the
  number \<open>1\<close> as its \<open>expr\<close>. A dashboard with one panel \<open>CPU\<close> and the three targets \<open>a\<close>,
  \<open>b\<close> and \<open>c\<close>.
\<close>

definition two_panel_dashboard :: json where
  "two_panel_dashboard =
     JObj [(asc ''dashboard'',
            JObj [(asc ''panels'',
                   JArr [JObj [(asc ''title'', JStr (asc ''Load'')),
                               (asc ''targets'', JArr [JObj [(asc ''expr'', JStr (asc ''up''))]])],
                         JObj [(asc ''title'', JStr (asc ''CPU'')),
                               (asc ''datasource'',
                                JObj [(asc ''type'', JStr (asc ''prometheus''))]),
                               (asc ''targets'',
                                JArr [JObj [(asc ''expr'',
                                            JStr (asc ''rate(x[$__interval])''))]])]])])]"

definition surrogate_title_dashboard :: json where
  "surrogate_title_dashboard =
     JObj [(asc ''dashboard'',
            JObj [(asc ''panels'',
                   JArr [JObj [(asc ''title'', JStr [55296]),
                               (asc ''datasource'', JNull),
                               (asc ''targets'', JArr [JObj [(asc ''expr'', JStr (asc ''up''))]])]])])]"

definition numeric_expr_dashboard :: json where
  "numeric_expr_dashboard =
     JObj [(asc ''dashboard'',
            JObj [(asc ''panels'',
                   JArr [JObj [(asc ''title'', JStr (asc ''CPU'')),
                               (asc ''datasource'', JNull),
                               (asc ''targets'', JArr [JObj [(asc ''expr'', JInt 1)]])]])])]"

definition three_target_dashboard :: json where
  "three_target_dashboard =
     JObj [(asc ''dashboard'',
            JObj [(asc ''panels'',
                   JArr [JObj [(asc ''title'', JStr (asc ''CPU'')),
                               (asc ''datasource'', JNull),
                               (asc ''targets'',
                                JArr [JObj [(asc ''expr'', JStr (asc ''a''))],
                                      JObj [(asc ''expr'', JStr (asc ''b''))],
                                      JObj [(asc ''expr'', JStr (asc ''c''))]])]])])]"

text \<open>
  The shape of a dashboard body: an object whose \<open>dashboard\<close>, when present, is an object
  whose \<open>panels\<close>, when present, is a list of objects; the \<open>targets\<close> of a panel, when
  present, is a list of objects, and the \<open>expr\<close> of a target, when present, is a string.
\<close>

definition target_schema :: "json \<Rightarrow> bool" where
  "target_schema t =
     (case t of
        JObj kvs \<Rightarrow>
          (case map_of kvs (asc ''expr'') of
             None \<Rightarrow> True
           | Some e \<Rightarrow> (case e of JStr s \<Rightarrow> True | _ \<Rightarrow> False))
      | _ \<Rightarrow> False)"

definition panel_schema :: "json \<Rightarrow> bool" where
  "panel_schema p =
     (case p of
        JObj kvs \<Rightarrow>
          (case map_of kvs (asc ''targets'') of
             None \<Rightarrow> True
           | Some ts \<Rightarrow> (case ts of JArr xs \<Rightarrow> list_all target_schema xs | _ \<Rightarrow> False))
      | _ \<Rightarrow> False)"

definition dashboard_schema :: "json \<Rightarrow> bool" where
  "dashboard_schema body =
     (case body of
        JObj b \<Rightarrow>
          (case obj_get b (asc ''dashboard'') (JObj []) of
             JObj d \<Rightarrow>
               (case obj_get d (asc ''panels'') (JArr []) of
                  JArr ps \<Rightarrow> list_all panel_schema ps
                | _ \<Rightarrow> False)
           | _ \<Rightarrow> False)
      | _ \<Rightarrow> False)"

text \<open>
  The extraction as the specification words it, written without the functions of the
  code. The datasource of a panel qualifies when it is \<open>null\<close> or an object whose \<open>type\<close> is
  \<open>prometheus\<close>; \<open>absent_qualifies\<close> says whether a missing \<open>datasource\<close> field qualifies too,
  as the specification has it (\<open>True\<close>). A target counts when it is not hidden and has a
  non-empty expression. The expected output lists, panel after panel and target after
  target, one item for every target that counts in a panel that has a \<open>targets\<close> field and a
  qualifying datasource. An item is in order when its query is not empty and the console
  can encode its title.
\<close>

definition datasource_accepts :: "bool \<Rightarrow> (pystr \<times> json) list \<Rightarrow> bool" where
  "datasource_accepts absent_qualifies p =
     (case map_of p (asc ''datasource'') of
        None \<Rightarrow> absent_qualifies
      | Some d \<Rightarrow>
          (case d of
             JNull \<Rightarrow> True
           | JObj ds \<Rightarrow> map_of ds (asc ''type'') = Some (JStr (asc ''prometheus''))
           | _ \<Rightarrow> False))"

definition target_counts :: "json \<Rightarrow> bool" where
  "target_counts t =
     (case t of
        JObj kvs \<Rightarrow>
          (case map_of kvs (asc ''hide'') of None \<Rightarrow> True | Some h \<Rightarrow> \<not> truthy h)
          \<and> (case map_of kvs (asc ''expr'') of None \<Rightarrow> False | Some e \<Rightarrow> truthy e)
      | _ \<Rightarrow> False)"

definition expr_text :: "json \<Rightarrow> pystr" where
  "expr_text t =
     (case t of
        JObj kvs \<Rightarrow>
          (case map_of kvs (asc ''expr'') of
             None \<Rightarrow> []
           | Some e \<Rightarrow> (case e of JStr s \<Rightarrow> s | _ \<Rightarrow> []))
      | _ \<Rightarrow> [])"

definition panel_qualifies :: "bool \<Rightarrow> json \<Rightarrow> bool" where
  "panel_qualifies absent_qualifies p =
     (case p of
        JObj kvs \<Rightarrow>
          map_of kvs (asc ''targets'') \<noteq> None \<and> datasource_accepts absent_qualifies kvs
      | _ \<Rightarrow> False)"

definition panel_targets :: "json \<Rightarrow> json list" where
  "panel_targets p =
     (case p of
        JObj kvs \<Rightarrow>
          (case map_of kvs (asc ''targets'') of
             None \<Rightarrow> []
           | Some ts \<Rightarrow> (case py_iter ts of Inr xs \<Rightarrow> xs | Inl e \<Rightarrow> []))
      | _ \<Rightarrow> [])"

definition title_of :: "json \<Rightarrow> json" where
  "title_of p =
     (case p of
        JObj kvs \<Rightarrow>
          (case map_of kvs (asc ''title'') of None \<Rightarrow> JStr default_title | Some t \<Rightarrow> t)
      | _ \<Rightarrow> JStr default_title)"

definition expected_item :: "json \<Rightarrow> json \<Rightarrow> query_item" where
  "expected_item ttl t = \<lparr>title = ttl, query = tokens_replaced_spec (expr_text t)\<rparr>"

definition panel_items :: "bool \<Rightarrow> json \<Rightarrow> query_item list" where
  "panel_items absent_qualifies p =
     (if panel_qualifies absent_qualifies p
      then map (expected_item (title_of p)) (filter target_counts (panel_targets p))
      else [])"

definition dashboard_panels :: "json \<Rightarrow> json list" where
  "dashboard_panels body =
     (case dict_get body (asc ''dashboard'') (JObj []) of
        Inl e \<Rightarrow> []
      | Inr d \<Rightarrow>
          (case dict_get d (asc ''panels'') (JArr []) of
             Inl e \<Rightarrow> []
           | Inr panels \<Rightarrow> (case py_iter panels of Inl e \<Rightarrow> [] | Inr ps \<Rightarrow> ps)))"

definition expected_items :: "bool \<Rightarrow> json \<Rightarrow> query_item list" where
  "expected_items absent_qualifies body =
     concat (map (panel_items absent_qualifies) (dashboard_panels body))"

definition item_ok :: "query_item \<Rightarrow> bool" where
  "item_ok item = (query item \<noteq> [] \<and> value_encodable (title item))"

definition titles_printable :: "query_item list \<Rightarrow> bool" where
  "titles_printable items = list_all (\<lambda>item. value_encodable (title item)) items"

text \<open>
  The failures the specification lists for a request that was issued: a network error
  (\<open>RequestException\<close>), a status other than 200, a body that is not JSON (\<open>ValueError\<close>);
  here with a message of the exception that the console can encode.
\<close>

definition listed_failure :: "http_outcome \<Rightarrow> bool" where
  "listed_failure outcome =
     (case outcome of
        GetRaises e m \<Rightarrow> e = RequestException \<and> encodable m
      | Response status_code body \<Rightarrow>
          status_code \<noteq> 200
          \<or> (case body of Inl em \<Rightarrow> fst em = ValueError \<and> encodable (snd em) | Inr v \<Rightarrow> False))"

text \<open>
  What the metric backend returns, query after query, when it is called for every query of
  a run of the collector; the section of one query: what the loop appends for it once the
  backend has answered; and whether the console can encode the message of the exception,
  when the backend raised one.
\<close>

fun backend_results ::
  "('w \<Rightarrow> pystr \<Rightarrow> ((pyexc \<times> pystr) + json) \<times> 'w) \<Rightarrow> 'w \<Rightarrow> query_item list
     \<Rightarrow> ((pyexc \<times> pystr) + json) list" where
  "backend_results custom_query w [] = []"
| "backend_results custom_query w (item # items) =
     (case custom_query w (query item) of
        (result, w') \<Rightarrow> result # backend_results custom_query w' items)"

definition query_section ::
  "py_builtins \<Rightarrow> query_item \<Rightarrow> (pyexc \<times> pystr) + json \<Rightarrow> pyexc + pystr" where
  "query_section bi item result = query_try bi result (section_header bi (title item))"

definition section_text :: "py_builtins \<Rightarrow> query_item \<Rightarrow> (pyexc \<times> pystr) + json \<Rightarrow> pystr" where
  "section_text bi item result =
     (case query_section bi item result of Inl e \<Rightarrow> [] | Inr s \<Rightarrow> s)"

definition result_printable :: "(pyexc \<times> pystr) + json \<Rightarrow> bool" where
  "result_printable result = (case result of Inl em \<Rightarrow> encodable (snd em) | Inr v \<Rightarrow> True)"


definition example_builtins :: py_builtins where
  "example_builtins =
     \<lparr>py_str = (\<lambda>v. asc ''None''),
      py_float = (\<lambda>v. case v of
                         JStr s \<Rightarrow> if s = asc ''1'' then Inr (PyFinite False 1 0) else Inl ValueError
                       | _ \<Rightarrow> Inl TypeError),
      format_2f = (\<lambda>x. asc ''1.00'')\<rparr>"

definition example_backend :: "unit \<Rightarrow> pystr \<Rightarrow> ((pyexc \<times> pystr) + json) \<times> unit" where
  "example_backend w q =
     (if q = asc ''a'' then (Inl (PrometheusApiClientException, asc ''HTTP Status Code 500''), w)
      else if q = asc ''b'' then (Inr (JArr []), w)
      else (Inl (OtherException, asc ''connection refused''), w))"

section \<open>Properties of \<open>str.replace\<close> and of the substitution\<close>

lemma prefix_disjoint_append:
  assumes "prefix t (xs @ ys)" "set t \<inter> set xs = {}" "xs \<noteq> []"
  shows "t = []"
proof (cases t)
  case Nil then show ?thesis by simp
next
  case (Cons a t')
  from assms(3) obtain x xs' where xs: "xs = x # xs'" by (cases xs) auto
  with assms(1) Cons have "a = x" by simp
  with assms(2) Cons xs show ?thesis by auto
qed

lemma sublist_disjoint_append:
  assumes "sublist t (xs @ ys)" "set t \<inter> set xs = {}" "t \<noteq> []"
  shows "sublist t ys"
  using assms
proof (induction xs)
  case Nil then show ?case by simp
next
  case (Cons x xs)
  from Cons.prems(1) have "prefix t (x # (xs @ ys)) \<or> sublist t (xs @ ys)"
    by (simp add: sublist_Cons_right)
  moreover have "\<not> prefix t (x # (xs @ ys))"
  proof
    assume "prefix t (x # (xs @ ys))"
    then have "prefix t ((x # xs) @ ys)" by simp
    from prefix_disjoint_append[OF this Cons.prems(2)] Cons.prems(3) show False by simp
  qed
  ultimately have "sublist t (xs @ ys)" by blast
  with Cons show ?case by auto
qed

lemma prefix_replace_scan:
  assumes "set t \<inter> set new = {}" "new \<noteq> []" "prefix t (replace_scan s old new)"
  shows "prefix t s"
  using assms
proof (induction s arbitrary: t)
  case Nil
  then show ?case by simp
next
  case (Cons c cs)
  show ?case
  proof (cases "prefix old (c # cs)")
    case True
    with Cons.prems(3) have "prefix t (new @ replace_scan (drop (length old - 1) cs) old new)"
      by simp
    from prefix_disjoint_append[OF this Cons.prems(1) Cons.prems(2)] show ?thesis by simp
  next
    case False
    with Cons.prems(3) have p: "prefix t (c # replace_scan cs old new)" by simp
    show ?thesis
    proof (cases t)
      case Nil then show ?thesis by simp
    next
      case (Cons a t')
      with p have "a = c" "prefix t' (replace_scan cs old new)" by simp_all
      moreover from Cons.prems(1) Cons have "set t' \<inter> set new = {}" by auto
      ultimately have "prefix t' cs" using Cons.IH Cons.prems(2) by blast
      with \<open>a = c\<close> Cons show ?thesis by simp
    qed
  qed
qed

lemma sublist_drop_imp: "sublist t (drop n xs) \<Longrightarrow> sublist t xs"
  using sublist_drop sublist_order.order.trans by blast

lemma replace_scan_removes:
  assumes "old \<noteq> []" "set old \<inter> set new = {}" "new \<noteq> []"
  shows "\<not> sublist old (replace_scan s old new)"
  using assms
proof (induction s old new rule: replace_scan.induct)
  case (1 old new)
  then show ?case by simp
next
  case (2 c cs old new)
  show ?case
  proof (cases "prefix old (c # cs)")
    case True
    have "\<not> sublist old (replace_scan (drop (length old - 1) cs) old new)"
      using "2.IH"(1)[OF True "2.prems"] .
    moreover have "sublist old (new @ replace_scan (drop (length old - 1) cs) old new)
        \<Longrightarrow> sublist old (replace_scan (drop (length old - 1) cs) old new)"
      using sublist_disjoint_append "2.prems" by blast
    ultimately show ?thesis using True by auto
  next
    case False
    have ih: "\<not> sublist old (replace_scan cs old new)"
      using "2.IH"(2)[OF False "2.prems"] .
    have "\<not> prefix old (replace_scan (c # cs) old new)"
      using prefix_replace_scan[OF "2.prems"(2) "2.prems"(3)] False by blast
    with ih False show ?thesis by (simp add: sublist_Cons_right)
  qed
qed

lemma replace_scan_keeps_absent:
  assumes "t \<noteq> []" "set t \<inter> set new = {}" "new \<noteq> []" "\<not> sublist t s"
  shows "\<not> sublist t (replace_scan s old new)"
  using assms
proof (induction s old new rule: replace_scan.induct)
  case (1 old new)
  then show ?case by simp
next
  case (2 c cs old new)
  have ncs: "\<not> sublist t cs"
    using "2.prems"(4) by (simp add: sublist_Cons_right)
  show ?case
  proof (cases "prefix old (c # cs)")
    case True
    have "\<not> sublist t (drop (length old - 1) cs)"
      using ncs sublist_drop_imp by blast
    then have "\<not> sublist t (replace_scan (drop (length old - 1) cs) old new)"
      using "2.IH"(1)[OF True "2.prems"(1-3)] by blast
    moreover have "sublist t (new @ replace_scan (drop (length old - 1) cs) old new)
        \<Longrightarrow> sublist t (replace_scan (drop (length old - 1) cs) old new)"
      using sublist_disjoint_append "2.prems" by blast
    ultimately show ?thesis using True by auto
  next
    case False
    have ih: "\<not> sublist t (replace_scan cs old new)"
      using "2.IH"(2)[OF False "2.prems"(1-3) ncs] .
    have "\<not> prefix t (c # cs)"
      using "2.prems"(4) by (simp add: sublist_Cons_right)
    then have "\<not> prefix t (replace_scan (c # cs) old new)"
      using prefix_replace_scan[OF "2.prems"(2) "2.prems"(3)] by blast
    with ih False show ?thesis by (simp add: sublist_Cons_right)
  qed
qed

lemma replace_scan_skip:
  assumes "old \<noteq> []" "hd old \<notin> set xs"
  shows "replace_scan (xs @ ys) old new = xs @ replace_scan ys old new"
  using assms
proof (induction xs)
  case Nil
  then show ?case by simp
next
  case (Cons x xs)
  from Cons.prems obtain a os where old: "old = a # os" by (cases old) auto
  with Cons.prems have "a \<noteq> x" by auto
  with old have "\<not> prefix old (x # (xs @ ys))" by simp
  with Cons show ?case by simp
qed

lemma range_token_facts:
  "asc ''$__range'' \<noteq> []" "length (asc ''$__range'') - Suc 0 = 7"
  "set (asc ''$__range'') \<inter> set (asc ''24h'') = {}"
  "set (asc ''$__range'') \<inter> set (asc ''5m'') = {}"
  "asc ''24h'' \<noteq> []"
  "hd (asc ''$__range'') = 36"
  by (simp_all add: asc_def)

lemma interval_token_facts:
  "asc ''$__interval'' \<noteq> []" "length (asc ''$__interval'') - Suc 0 = 10"
  "set (asc ''$__interval'') \<inter> set (asc ''5m'') = {}"
  "set (asc ''$__interval'') \<inter> set (asc ''24h'') = {}"
  "asc ''5m'' \<noteq> []"
  "hd (asc ''$__interval'') = 36"
  "36 \<notin> set (tl (asc ''$__interval''))"
  "36 \<notin> set (asc ''24h'')"
  "length (tl (asc ''$__interval'')) = 10"
  by (simp_all add: asc_def)

lemma substitute_variables_scan:
  "substitute_variables q =
     replace_scan (replace_scan q (asc ''$__range'') (asc ''24h'')) (asc ''$__interval'') (asc ''5m'')"
  by (simp add: substitute_variables_def str_replace_def range_token_facts interval_token_facts)

lemma two_scans_eq_tokens_replaced:
  "replace_scan (replace_scan q (asc ''$__range'') (asc ''24h'')) (asc ''$__interval'') (asc ''5m'')
     = tokens_replaced_spec q"
proof (induction q rule: tokens_replaced_spec.induct)
  case 1
  then show ?case by simp
next
  case (2 c cs)
  let ?R = "asc ''$__range''" and ?I = "asc ''$__interval''"
  let ?f = "\<lambda>s. replace_scan s ?R (asc ''24h'')" and ?g = "\<lambda>s. replace_scan s ?I (asc ''5m'')"
  show ?case
  proof (cases "prefix ?R (c # cs)")
    case True
    then have "?f (c # cs) = asc ''24h'' @ ?f (drop 7 cs)"
      by (simp add: range_token_facts)
    moreover have "?g (asc ''24h'' @ ?f (drop 7 cs)) = asc ''24h'' @ ?g (?f (drop 7 cs))"
      by (rule replace_scan_skip) (simp_all add: interval_token_facts)
    ultimately show ?thesis using True "2.IH"(1) by simp
  next
    case notR: False
    show ?thesis
    proof (cases "prefix ?I (c # cs)")
      case True
      then obtain rest where split: "c # cs = ?I @ rest" by (auto simp: prefix_def)
      then have c: "c = 36" and cs: "cs = tl ?I @ rest"
        by (simp_all add: asc_def)
      have rest: "rest = drop 10 cs"
        using cs by (simp add: asc_def)
      have "?f cs = tl ?I @ ?f rest"
        unfolding cs by (rule replace_scan_skip) (simp_all add: asc_def)
      with notR have "?f (c # cs) = ?I @ ?f rest"
        using c by (simp add: asc_def)
      moreover have "?g (?I @ ?f rest) = asc ''5m'' @ ?g (?f rest)"
        by (simp add: asc_def)
      ultimately show ?thesis using notR True "2.IH"(2) rest by simp
    next
      case False
      have d: "set ?I \<inter> set (asc ''24h'') = {}" and n: "asc ''24h'' \<noteq> []"
        by (simp_all add: interval_token_facts range_token_facts)
      have "\<not> prefix ?I (?f (c # cs))"
        using prefix_replace_scan[OF d n] False by blast
      with notR have "?g (?f (c # cs)) = c # ?g (?f cs)" by simp
      with notR False "2.IH"(3) show ?thesis by simp
    qed
  qed
qed

lemma substitute_variables_spec: "substitute_variables s = tokens_replaced_spec s"
  by (simp add: substitute_variables_scan two_scans_eq_tokens_replaced)

section \<open>Properties of console output\<close>

lemma encodable_append [simp]: "encodable (a @ b) = (encodable a \<and> encodable b)"
  by (simp add: encodable_def)

lemma encodable_Nil [simp]: "encodable []"
  by (simp add: encodable_def)

lemma print_found [simp]: "print_value_ok found_prefix v found_suffix = value_encodable v"
  by (simp add: print_value_ok_def found_prefix_def found_suffix_def encodable_def
        surrogate_def)

lemma print_running [simp]: "print_value_ok running_prefix v [93] = value_encodable v"
  by (simp add: print_value_ok_def running_prefix_def encodable_def surrogate_def)

lemma print_exception_simps [simp]:
  "print_exception_ok network_error_prefix m = message_encodable m"
  "print_exception_ok parse_error_prefix m = message_encodable m"
  "print_exception_ok query_failed_log_prefix m = message_encodable m"
  "print_exception_ok unknown_error_log_prefix m = message_encodable m"
  "print_exception_ok gemini_log_prefix m = message_encodable m"
  "print_exception_ok discord_error_prefix m = message_encodable m"
  by (simp_all add: print_exception_ok_def network_error_prefix_def parse_error_prefix_def
        query_failed_log_prefix_def unknown_error_log_prefix_def gemini_log_prefix_def
        discord_error_prefix_def encodable_def surrogate_def)

lemma message_encodable_simps [simp]:
  "message_encodable BuiltinMessage" "message_encodable (Message s) = encodable s"
  by (simp_all add: message_encodable_def)

section \<open>Properties of the extraction\<close>

lemma obj_index_has:
  "obj_has kvs k \<Longrightarrow> \<exists>v. obj_index kvs k = Inr v \<and> obj_get kvs k d = v \<and> map_of kvs k = Some v"
  by (auto simp: obj_has_def obj_index_def obj_get_def)

lemma is_prometheus_accepts:
  "is_prometheus_panel (datasource_info kvs) = datasource_accepts False kvs"
  by (auto simp: is_prometheus_panel_def datasource_info_def obj_get_def datasource_accepts_def
           split: option.splits json.splits)

lemma target_counts_iff:
  "target_counts (JObj kvs)
     = (\<not> truthy (obj_get kvs (asc ''hide'') JNull) \<and> obj_has kvs (asc ''expr'')
        \<and> truthy (obj_get kvs (asc ''expr'') JNull))"
  by (auto simp: target_counts_def obj_get_def obj_has_def split: option.splits)

lemma process_target_Inr:
  assumes "process_target ttl t acc = Inr r"
  shows "r = acc @ (if target_counts t then [expected_item ttl t] else [])"
    and "target_counts t \<Longrightarrow> value_encodable ttl"
proof -
  have "r = acc @ (if target_counts t then [expected_item ttl t] else [])
        \<and> (target_counts t \<longrightarrow> value_encodable ttl)"
  proof (cases t)
    case (JObj kvs)
    show ?thesis
    proof (cases "target_counts t")
      case True
      with JObj have c: "\<not> truthy (obj_get kvs (asc ''hide'') JNull)"
          "obj_has kvs (asc ''expr'')" "truthy (obj_get kvs (asc ''expr'') JNull)"
        by (simp_all add: target_counts_iff)
      then obtain v where v: "obj_index kvs (asc ''expr'') = Inr v"
          "obj_get kvs (asc ''expr'') JNull = v" "map_of kvs (asc ''expr'') = Some v"
        using obj_index_has by blast
      with assms JObj c obtain s where s: "v = JStr s"
        by (cases v) auto
      with assms JObj c v True show ?thesis
        by (auto simp: expected_item_def expr_text_def substitute_variables_spec
                 split: if_splits)
    next
      case False
      with assms JObj show ?thesis by (auto simp: target_counts_iff)
    qed
  qed (use assms in auto)
  then show "r = acc @ (if target_counts t then [expected_item ttl t] else [])"
    and "target_counts t \<Longrightarrow> value_encodable ttl"
    by blast+
qed

lemma targets_loop_Inr:
  "targets_loop ttl ts acc = Inr r \<Longrightarrow> r = acc @ map (expected_item ttl) (filter target_counts ts)"
proof (induction ts arbitrary: acc)
  case Nil
  then show ?case by simp
next
  case (Cons t ts)
  then obtain acc' where a: "process_target ttl t acc = Inr acc'" and b: "targets_loop ttl ts acc' = Inr r"
    by (auto split: sum.splits)
  from process_target_Inr(1)[OF a] Cons.IH[OF b] show ?case by simp
qed

lemma targets_loop_printable:
  "targets_loop ttl ts acc = Inr r \<Longrightarrow> filter target_counts ts \<noteq> [] \<Longrightarrow> value_encodable ttl"
proof (induction ts arbitrary: acc)
  case Nil
  then show ?case by simp
next
  case (Cons t ts)
  then obtain acc' where a: "process_target ttl t acc = Inr acc'" and b: "targets_loop ttl ts acc' = Inr r"
    by (auto split: sum.splits)
  show ?case
  proof (cases "target_counts t")
    case True
    with process_target_Inr(2)[OF a] show ?thesis by simp
  next
    case False
    with Cons.prems(2) have "filter target_counts ts \<noteq> []" by simp
    from Cons.IH[OF b this] show ?thesis .
  qed
qed

lemma process_panel_Inr:
  assumes "process_panel p acc = Inr r"
  shows "r = acc @ panel_items False p"
proof (cases p)
  case (JObj kvs)
  show ?thesis
  proof (cases "obj_has kvs (asc ''targets'') \<and> is_prometheus_panel (datasource_info kvs)")
    case True
    then obtain v where v: "obj_index kvs (asc ''targets'') = Inr v"
        "map_of kvs (asc ''targets'') = Some v"
      using obj_index_has by blast
    with assms JObj True obtain ts where ts: "py_iter v = Inr ts"
        "targets_loop (panel_title kvs) ts acc = Inr r"
      by (auto split: sum.splits)
    have "panel_title kvs = title_of p"
      using JObj by (simp add: panel_title_def title_of_def obj_get_def)
    with targets_loop_Inr[OF ts(2)] ts(1) v True JObj show ?thesis
      by (simp add: panel_items_def panel_qualifies_def panel_targets_def is_prometheus_accepts)
  next
    case False
    with assms JObj show ?thesis
      by (auto simp: panel_items_def panel_qualifies_def is_prometheus_accepts obj_has_def)
  qed
qed (use assms in auto)

lemma panels_loop_Inr:
  "panels_loop ps acc = Inr r \<Longrightarrow> r = acc @ concat (map (panel_items False) ps)"
proof (induction ps arbitrary: acc)
  case Nil
  then show ?case by simp
next
  case (Cons p ps)
  then obtain acc' where a: "process_panel p acc = Inr acc'" and b: "panels_loop ps acc' = Inr r"
    by (auto split: sum.splits)
  from process_panel_Inr[OF a] Cons.IH[OF b] show ?case by simp
qed

lemma extract_queries_Inr:
  "extract_queries body = Inr r \<Longrightarrow> r = expected_items False body"
  by (auto simp: extract_queries_def expected_items_def dashboard_panels_def
           split: sum.splits dest: panels_loop_Inr)

text \<open>On a body of the dashboard shape the walk returns, or a \<open>print\<close> of a title raised.\<close>

lemma process_target_schema:
  assumes "target_schema t"
  shows "process_target ttl t acc
       = (if target_counts t \<and> \<not> value_encodable ttl then Inl UnicodeEncodeError
          else Inr (acc @ (if target_counts t then [expected_item ttl t] else [])))"
proof -
  from assms obtain kvs where t: "t = JObj kvs" by (cases t) (auto simp: target_schema_def)
  show ?thesis
  proof (cases "target_counts t")
    case False
    with t show ?thesis by (auto simp: target_counts_iff)
  next
    case True
    with t have c: "\<not> truthy (obj_get kvs (asc ''hide'') JNull)"
        "obj_has kvs (asc ''expr'')" "truthy (obj_get kvs (asc ''expr'') JNull)"
      by (simp_all add: target_counts_iff)
    then obtain v where v: "obj_index kvs (asc ''expr'') = Inr v"
        "map_of kvs (asc ''expr'') = Some v"
      using obj_index_has by blast
    with assms t obtain s where s: "v = JStr s"
      by (cases v) (auto simp: target_schema_def)
    from True t c v s show ?thesis
      by (simp add: expected_item_def expr_text_def substitute_variables_spec)
  qed
qed

lemma targets_loop_schema:
  "list_all target_schema ts \<Longrightarrow>
     targets_loop ttl ts acc
       = (if filter target_counts ts \<noteq> [] \<and> \<not> value_encodable ttl then Inl UnicodeEncodeError
          else Inr (acc @ map (expected_item ttl) (filter target_counts ts)))"
  by (induction ts arbitrary: acc) (auto simp: process_target_schema)

lemma titles_printable_map:
  "titles_printable (map (expected_item ttl) xs) = (xs = [] \<or> value_encodable ttl)"
  by (cases xs) (auto simp: titles_printable_def expected_item_def list_all_iff)

lemma titles_printable_append [simp]:
  "titles_printable (xs @ ys) = (titles_printable xs \<and> titles_printable ys)"
  by (simp add: titles_printable_def)

lemma titles_printable_Nil [simp]: "titles_printable []"
  by (simp add: titles_printable_def)

lemma process_panel_schema:
  assumes "panel_schema p"
  shows "process_panel p acc
           = (if titles_printable (panel_items False p) then Inr (acc @ panel_items False p)
              else Inl UnicodeEncodeError)"
proof -
  from assms obtain kvs where p: "p = JObj kvs" by (cases p) (auto simp: panel_schema_def)
  have t: "panel_title kvs = title_of p"
    using p by (simp add: panel_title_def title_of_def obj_get_def)
  show ?thesis
  proof (cases "map_of kvs (asc ''targets'')")
    case None
    with p show ?thesis
      by (simp add: obj_has_def panel_items_def panel_qualifies_def)
  next
    case (Some v)
    with assms p obtain ts where ts: "v = JArr ts" "list_all target_schema ts"
      by (cases v) (auto simp: panel_schema_def)
    with Some p t show ?thesis
      by (auto simp: obj_has_def obj_index_def panel_items_def panel_qualifies_def
            panel_targets_def is_prometheus_accepts targets_loop_schema titles_printable_map)
  qed
qed

lemma panels_loop_schema:
  "list_all panel_schema ps \<Longrightarrow>
     panels_loop ps acc
       = (if titles_printable (concat (map (panel_items False) ps))
          then Inr (acc @ concat (map (panel_items False) ps))
          else Inl UnicodeEncodeError)"
proof (induction ps arbitrary: acc)
  case Nil
  then show ?case by simp
next
  case (Cons p ps)
  then have p: "panel_schema p" and ps: "list_all panel_schema ps" by simp_all
  show ?case
  proof (cases "titles_printable (panel_items False p)")
    case True
    with process_panel_schema[OF p, of acc] Cons.IH[OF ps, of "acc @ panel_items False p"]
    show ?thesis by simp
  next
    case False
    with process_panel_schema[OF p, of acc] show ?thesis by simp
  qed
qed

lemma extract_queries_schema:
  assumes "dashboard_schema body"
  shows "extract_queries body
           = (if titles_printable (expected_items False body)
              then Inr (expected_items False body) else Inl UnicodeEncodeError)"
proof -
  from assms obtain b d ps where s: "body = JObj b"
      "obj_get b (asc ''dashboard'') (JObj []) = JObj d"
      "obj_get d (asc ''panels'') (JArr []) = JArr ps" "list_all panel_schema ps"
    by (auto simp: dashboard_schema_def split: json.splits)
  from panels_loop_schema[OF s(4), of "[]"] s show ?thesis
    by (simp add: extract_queries_def expected_items_def dashboard_panels_def)
qed

text \<open>Every item the walk returns has a non-empty query and a title that was printed.\<close>

lemma tokens_replaced_spec_nonempty: "s \<noteq> [] \<Longrightarrow> tokens_replaced_spec s \<noteq> []"
  by (cases s) (auto simp: asc_def)

lemma process_target_items:
  assumes "process_target ttl t acc = Inr r" and "list_all item_ok acc"
  shows "list_all item_ok r"
proof (cases "target_counts t")
  case False
  with process_target_Inr(1)[OF assms(1)] assms(2) show ?thesis by simp
next
  case True
  then obtain kvs where t: "t = JObj kvs" by (cases t) (auto simp: target_counts_def)
  with True have c: "\<not> truthy (obj_get kvs (asc ''hide'') JNull)"
      "obj_has kvs (asc ''expr'')" "truthy (obj_get kvs (asc ''expr'') JNull)"
    by (simp_all add: target_counts_iff)
  then obtain v where v: "obj_index kvs (asc ''expr'') = Inr v"
      "obj_get kvs (asc ''expr'') JNull = v" "map_of kvs (asc ''expr'') = Some v"
    using obj_index_has by blast
  with assms(1) t c obtain s where s: "v = JStr s"
    by (cases v) auto
  with c v have "s \<noteq> []" by simp
  with s v t have "query (expected_item ttl t) \<noteq> []"
    by (simp add: expected_item_def expr_text_def tokens_replaced_spec_nonempty)
  moreover have "value_encodable ttl"
    using process_target_Inr(2)[OF assms(1) True] .
  ultimately have "item_ok (expected_item ttl t)"
    by (simp add: item_ok_def expected_item_def)
  with process_target_Inr(1)[OF assms(1)] assms(2) True show ?thesis by simp
qed

lemma targets_loop_items:
  "targets_loop ttl ts acc = Inr r \<Longrightarrow> list_all item_ok acc \<Longrightarrow> list_all item_ok r"
proof (induction ts arbitrary: acc)
  case Nil
  then show ?case by simp
next
  case (Cons t ts)
  then obtain acc' where a: "process_target ttl t acc = Inr acc'" and b: "targets_loop ttl ts acc' = Inr r"
    by (auto split: sum.splits)
  from Cons.IH[OF b process_target_items[OF a Cons.prems(2)]] show ?case .
qed

lemma process_panel_items:
  assumes "process_panel p acc = Inr r" and "list_all item_ok acc"
  shows "list_all item_ok r"
proof (cases p)
  case (JObj kvs)
  show ?thesis
  proof (cases "obj_has kvs (asc ''targets'') \<and> is_prometheus_panel (datasource_info kvs)")
    case True
    with assms(1) JObj obtain v ts where "targets_loop (panel_title kvs) ts acc = Inr r"
      by (auto split: sum.splits)
    from targets_loop_items[OF this assms(2)] show ?thesis .
  next
    case False
    with assms JObj show ?thesis by auto
  qed
qed (use assms in auto)

lemma panels_loop_items:
  "panels_loop ps acc = Inr r \<Longrightarrow> list_all item_ok acc \<Longrightarrow> list_all item_ok r"
proof (induction ps arbitrary: acc)
  case Nil
  then show ?case by simp
next
  case (Cons p ps)
  then obtain acc' where a: "process_panel p acc = Inr acc'" and b: "panels_loop ps acc' = Inr r"
    by (auto split: sum.splits)
  from Cons.IH[OF b process_panel_items[OF a Cons.prems(2)]] show ?case .
qed

lemma extract_queries_items:
  assumes "extract_queries body = Inr r"
  shows "list_all item_ok r"
proof -
  from assms obtain ps where "panels_loop ps [] = Inr r"
    by (auto simp: extract_queries_def split: sum.splits)
  from panels_loop_items[OF this] show ?thesis by simp
qed

text \<open>The \<open>try\<close> block with its \<open>except\<close> clauses, and the function around it.\<close>

lemma grafana_except_Inr:
  "grafana_except (grafana_try outcome) = Inr r \<Longrightarrow>
     r = [] \<or> (\<exists>body. outcome = Response 200 (Inr body) \<and> extract_queries body = Inr r)"
  by (auto simp: grafana_except_def grafana_try_def
           split: http_outcome.splits if_splits sum.splits)

lemma grafana_ok:
  "grafana_except (grafana_try (Response 200 (Inr body)))
     = (case extract_queries body of
          Inl e \<Rightarrow> if e = UnicodeEncodeError \<or> e = ValueError \<or> e = RequestException then Inr []
                   else Inl e
        | Inr r \<Rightarrow> Inr r)"
  by (auto simp: grafana_except_def grafana_try_def is_ValueError_def split: sum.splits)

lemma grafana_failure:
  "listed_failure outcome \<Longrightarrow> grafana_except (grafana_try outcome) = Inr []"
  by (auto simp: listed_failure_def grafana_except_def grafana_try_def is_ValueError_def
           split: http_outcome.splits sum.splits)

lemma get_all_cases:
  "get_all_queries_from_grafana cfg http_get uid = (Inr [], [])
   \<or> get_all_queries_from_grafana cfg http_get uid = (Inl UnicodeEncodeError, [])
   \<or> (\<exists>r. get_all_queries_from_grafana cfg http_get uid
            = (grafana_except (grafana_try (http_get r)), [r]))"
  by (auto simp: get_all_queries_from_grafana_def split: option.splits)

lemma get_all_items:
  assumes "fst (get_all_queries_from_grafana cfg http_get uid) = Inr items"
  shows "list_all item_ok items"
proof -
  from get_all_cases[of cfg http_get uid] assms
  consider "items = []" | r where "grafana_except (grafana_try (http_get r)) = Inr items"
    by auto
  then show ?thesis
  proof cases
    case 1
    then show ?thesis by simp
  next
    case 2
    from grafana_except_Inr[OF this] show ?thesis
      using extract_queries_items by auto
  qed
qed

lemmas eval_defs =
  asc_def obj_has_def obj_get_def obj_index_def is_prometheus_panel_def
  substitute_variables_def str_replace_def extract_queries_def cpu_dashboard_def
  datasource_info_def panel_title_def get_all_queries_from_grafana_def example_config_def
  env_truthy_def grafana_try_def grafana_except_def grafana_request_def
  numeric_expr_dashboard_def two_panel_dashboard_def surrogate_title_dashboard_def
  three_target_dashboard_def request_log_def request_log_prefix_def encodable_def
  surrogate_def value_encodable_def is_ValueError_def

section \<open>Properties of the collector and of the notifier\<close>

lemma process_metric_append:
  "process_metric bi m rd = (case process_metric bi m [] of Inl e \<Rightarrow> Inl e | Inr l \<Rightarrow> Inr (rd @ l))"
  by (cases m) (auto split: json.splits sum.splits)

lemma metrics_loop_append:
  "metrics_loop bi ms rd = (rd @ fst (metrics_loop bi ms []), snd (metrics_loop bi ms []))"
proof (induction ms arbitrary: rd)
  case Nil
  then show ?case by simp
next
  case (Cons m ms)
  show ?case
  proof (cases "process_metric bi m []")
    case (Inl e)
    then have "process_metric bi m rd = Inl e"
      using process_metric_append[of bi m rd] by simp
    with Inl show ?thesis by simp
  next
    case (Inr l)
    then have "process_metric bi m rd = Inr (rd @ l)"
      using process_metric_append[of bi m rd] by simp
    with Inr Cons.IH[of "rd @ l"] Cons.IH[of l] show ?thesis by simp
  qed
qed

lemma query_except_append:
  "query_except e m (rd @ x)
     = (case query_except e m x of Inl e' \<Rightarrow> Inl e' | Inr s \<Rightarrow> Inr (rd @ s))"
  by (simp add: query_except_def)

lemma query_except_builtin:
  "query_except e BuiltinMessage rd
     = Inr (rd @ (if e = PrometheusApiClientException then query_failed_marker
                  else unknown_error_marker))"
  by (simp add: query_except_def)

lemma query_try_append:
  "query_try bi result rd
     = (case query_try bi result [] of Inl e \<Rightarrow> Inl e | Inr s \<Rightarrow> Inr (rd @ s))"
proof (cases result)
  case (Inl em)
  then show ?thesis
    using query_except_append[of "fst em" "Message (snd em)" rd "[]"]
    by (simp add: query_try_def)
next
  case (Inr metrics)
  show ?thesis
  proof (cases "truthy metrics")
    case False
    with Inr show ?thesis by (simp add: query_try_def)
  next
    case True
    show ?thesis
    proof (cases "py_iter metrics")
      case (Inl e)
      with Inr True show ?thesis
        by (simp add: query_try_def query_except_builtin)
    next
      case ms: (Inr ms)
      obtain l r where l: "metrics_loop bi ms [] = (l, r)" by (cases "metrics_loop bi ms []")
      then have "metrics_loop bi ms rd = (rd @ l, r)"
        using metrics_loop_append[of bi ms rd] by simp
      with l Inr True ms show ?thesis
        by (cases r) (simp_all add: query_try_def query_except_builtin)
    qed
  qed
qed

lemma query_try_printable:
  assumes "result_printable result"
  shows "\<exists>s. query_try bi result [] = Inr s"
proof (cases result)
  case (Inl em)
  with assms show ?thesis
    by (simp add: query_try_def query_except_def result_printable_def)
next
  case (Inr metrics)
  show ?thesis
  proof (cases "metrics_loop bi (case py_iter metrics of Inr ms \<Rightarrow> ms | Inl e \<Rightarrow> []) []")
    case (Pair l r)
    with Inr show ?thesis
      by (cases r; cases "py_iter metrics")
         (simp_all add: query_try_def query_except_builtin)
  qed
qed

lemma query_try_section:
  "query_try bi result (rd @ section_header bi (title item))
     = (case query_section bi item result of Inl e \<Rightarrow> Inl e | Inr s \<Rightarrow> Inr (rd @ s))"
  using query_try_append[of bi result "rd @ section_header bi (title item)"]
        query_try_append[of bi result "section_header bi (title item)"]
  by (simp add: query_section_def split: sum.splits)

lemma query_section_printable:
  assumes "result_printable result"
  shows "query_section bi item result = Inr (section_text bi item result)"
proof -
  from query_try_printable[OF assms] obtain s where "query_try bi result [] = Inr s" by blast
  then show ?thesis
    using query_try_append[of bi result "section_header bi (title item)"]
    by (simp add: query_section_def section_text_def)
qed

lemma items_loop_sections:
  assumes "list_all item_ok items"
      and "list_all result_printable (backend_results cq w items)"
  shows "fst (items_loop bi cq w items rd)
     = Inr (rd @ concat (map2 (section_text bi) items (backend_results cq w items)))"
  using assms
proof (induction items arbitrary: w rd)
  case Nil
  then show ?case by simp
next
  case (Cons item items)
  obtain result w' where r: "cq w (query item) = (result, w')" by (cases "cq w (query item)")
  with Cons.prems have p: "result_printable result"
      and rest: "list_all result_printable (backend_results cq w' items)"
      and io: "item_ok item" and ok2: "list_all item_ok items"
    by simp_all
  from io have ok1: "value_encodable (title item)" by (simp add: item_ok_def)
  note ok = ok1 ok2
  have "process_item bi cq w item rd = (Inr (rd @ section_text bi item result), w')"
    using r ok(1) query_section_printable[OF p, of bi item]
    by (simp add: process_item_def query_try_section)
  with Cons.IH[OF ok(2) rest, of "rd @ section_text bi item result"] r show ?case
    by simp
qed

lemma length_backend_results: "length (backend_results cq w items) = length items"
  by (induction items arbitrary: w) (auto split: prod.splits)









section \<open>The substitution and the configuration\<close>

text \<open>
  C4: for every expression string (so also for one that contains both tokens), what the
  code's two replacements produce is the expression with every occurrence of \<open>$__range\<close>
  replaced by \<open>24h\<close> and every occurrence of \<open>$__interval\<close> replaced by \<open>5m\<close>, neither token
  occurs in it any more, and it is the query of the item extracted from a target with
  that (non-empty) expression, whenever the line that announces the item can be printed.
\<close>

theorem substitution_exact:
  "substitute_variables q = tokens_replaced_spec q
   \<and> \<not> sublist (asc ''$__range'') (substitute_variables q)
   \<and> \<not> sublist (asc ''$__interval'') (substitute_variables q)
   \<and> process_target ttl (JObj [(asc ''expr'', JStr (c # cs))]) acc
       = (if value_encodable ttl
          then Inr (acc @ [\<lparr>title = ttl, query = tokens_replaced_spec (c # cs)\<rparr>])
          else Inl UnicodeEncodeError)"
proof -
  have eq: "\<And>s. substitute_variables s = tokens_replaced_spec s"
    by (simp add: substitute_variables_scan two_scans_eq_tokens_replaced)
  have "\<not> sublist (asc ''$__range'') (replace_scan q (asc ''$__range'') (asc ''24h''))"
    by (rule replace_scan_removes) (simp_all add: range_token_facts)
  then have r: "\<not> sublist (asc ''$__range'') (substitute_variables q)"
    unfolding substitute_variables_scan
    using replace_scan_keeps_absent[of "asc ''$__range''" "asc ''5m''"]
    by (simp add: range_token_facts interval_token_facts)
  have i: "\<not> sublist (asc ''$__interval'') (substitute_variables q)"
    unfolding substitute_variables_scan
    by (rule replace_scan_removes) (simp_all add: interval_token_facts)
  have "process_target ttl (JObj [(asc ''expr'', JStr (c # cs))]) acc
          = (if value_encodable ttl
             then Inr (acc @ [\<lparr>title = ttl, query = substitute_variables (c # cs)\<rparr>])
             else Inl UnicodeEncodeError)"
    by (simp add: obj_get_def obj_has_def obj_index_def asc_def)
  with eq r i show ?thesis by simp
qed

text \<open>
  C8: if one of the four dashboard configuration values (endpoint, credential, public
  hostname, dashboard id) is unset or empty, the extractor returns the empty sequence and
  issues no HTTP request.
\<close>

theorem missing_configuration_no_request:
  assumes "\<not> env_truthy (GRAFANA_URL cfg) \<or> \<not> env_truthy (GRAFANA_API_KEY cfg)
           \<or> \<not> env_truthy (GRAFANA_PUBLIC_DOMAIN cfg) \<or> \<not> env_truthy dashboard_uid"
  shows "get_all_queries_from_grafana cfg http_get dashboard_uid = (Inr [], [])"
  using assms by (auto simp: get_all_queries_from_grafana_def)

theorem missing_configuration_no_request_witness:
  "\<not> env_truthy (GRAFANA_API_KEY (example_config\<lparr>GRAFANA_API_KEY := Some []\<rparr>))
   \<and> get_all_queries_from_grafana (example_config\<lparr>GRAFANA_API_KEY := Some []\<rparr>)
         (\<lambda>r. Response 200 (Inr (cpu_dashboard []))) (Some (asc ''abcdef123''))
       = (Inr [], [])"
proof -
  have h: "\<not> env_truthy (GRAFANA_API_KEY (example_config\<lparr>GRAFANA_API_KEY := Some []\<rparr>))"
    by (simp add: env_truthy_def)
  then show ?thesis
    using missing_configuration_no_request
      [of "example_config\<lparr>GRAFANA_API_KEY := Some []\<rparr>" "Some (asc ''abcdef123'')"
          "\<lambda>r. Response 200 (Inr (cpu_dashboard []))"]
    by blast
qed

section \<open>The extractor\<close>

text \<open>
  C1, as the claim states it, fails: for the dashboard with one panel titled \<open>CPU\<close>, one
  target with \<open>expr\<close> \<open>sum(rate($__range))\<close> and \<open>hide\<close> false, and no \<open>datasource\<close> field, the
  extractor returns the empty sequence. The missing field defaults to the empty \<open>dict\<close>,
  which is neither \<open>None\<close> nor of type \<open>prometheus\<close>.
\<close>

theorem cpu_example_without_datasource_yields_nothing:
  "fst (get_all_queries_from_grafana example_config
          (\<lambda>r. Response 200 (Inr (cpu_dashboard []))) (DASHBOARD_UID example_config)) = Inr []
   \<and> fst (get_all_queries_from_grafana example_config
          (\<lambda>r. Response 200 (Inr (cpu_dashboard []))) (DASHBOARD_UID example_config))
       \<noteq> Inr [\<lparr>title = JStr (asc ''CPU''), query = asc ''sum(rate(24h))''\<rparr>]"
  by (simp add: eval_defs)

text \<open>
  C1, amended: a panel with a \<open>targets\<close> field whose \<open>datasource\<close> field is \<open>null\<close>, or an
  object whose \<open>type\<close> is \<open>prometheus\<close>, qualifies: its targets are walked; a panel with no
  \<open>datasource\<close> field does not qualify and is skipped; for the example dashboard with
  \<open>datasource\<close> \<open>null\<close> in its panel the extractor returns exactly the item with title \<open>CPU\<close>
  and query \<open>sum(rate(24h))\<close>.
\<close>

theorem null_datasource_qualifies:
  "(map_of p (asc ''targets'') = Some targets
      \<and> (map_of p (asc ''datasource'') = Some JNull
           \<or> (\<exists>ds. map_of p (asc ''datasource'') = Some (JObj ds)
                  \<and> map_of ds (asc ''type'') = Some (JStr (asc ''prometheus''))))
      \<longrightarrow> process_panel (JObj p) acc
          = (case py_iter targets of
               Inl e \<Rightarrow> Inl e
             | Inr ts \<Rightarrow> targets_loop (panel_title p) ts acc))
   \<and> (map_of p (asc ''datasource'') = None \<longrightarrow> process_panel (JObj p) acc = Inr acc)
   \<and> fst (get_all_queries_from_grafana example_config
            (\<lambda>r. Response 200 (Inr (cpu_dashboard [(asc ''datasource'', JNull)])))
            (DASHBOARD_UID example_config))
       = Inr [\<lparr>title = JStr (asc ''CPU''), query = asc ''sum(rate(24h))''\<rparr>]"
proof -
  have "fst (get_all_queries_from_grafana example_config
            (\<lambda>r. Response 200 (Inr (cpu_dashboard [(asc ''datasource'', JNull)])))
            (DASHBOARD_UID example_config))
       = Inr [\<lparr>title = JStr (asc ''CPU''), query = asc ''sum(rate(24h))''\<rparr>]"
    by (simp add: eval_defs)
  moreover have "map_of p (asc ''datasource'') = None \<longrightarrow> process_panel (JObj p) acc = Inr acc"
    by (simp add: is_prometheus_panel_def datasource_info_def obj_get_def)
  moreover have "map_of p (asc ''targets'') = Some targets
      \<and> (map_of p (asc ''datasource'') = Some JNull
           \<or> (\<exists>ds. map_of p (asc ''datasource'') = Some (JObj ds)
                  \<and> map_of ds (asc ''type'') = Some (JStr (asc ''prometheus''))))
      \<longrightarrow> process_panel (JObj p) acc
          = (case py_iter targets of
               Inl e \<Rightarrow> Inl e
             | Inr ts \<Rightarrow> targets_loop (panel_title p) ts acc)"
    by (auto simp: is_prometheus_panel_def datasource_info_def obj_get_def obj_has_def
          obj_index_def)
  ultimately show ?thesis by blast
qed

theorem null_datasource_qualifies_witness:
  "map_of [(asc ''datasource'', JNull), (asc ''targets'', JArr [])] (asc ''targets'')
     = Some (JArr [])
   \<and> map_of [(asc ''datasource'', JNull), (asc ''targets'', JArr [])] (asc ''datasource'')
     = Some JNull
   \<and> process_panel (JObj [(asc ''datasource'', JNull), (asc ''targets'', JArr [])]) [] = Inr []
   \<and> map_of [(asc ''targets'', JArr [])] (asc ''datasource'') = None
   \<and> process_panel (JObj [(asc ''targets'', JArr [])]) [] = Inr []"
  using null_datasource_qualifies
          [of "[(asc ''datasource'', JNull), (asc ''targets'', JArr [])]" "JArr []" "[]"]
        null_datasource_qualifies [of "[(asc ''targets'', JArr [])]" "JArr []" "[]"]
  by (simp add: asc_def)

text \<open>
  C2, as the claim states it, fails: the extractor raises to its caller for a response
  with status 200 whose body is JSON of an unexpected shape (a target whose \<open>expr\<close> is a
  number: \<open>AttributeError\<close>), for a body nested so deep that \<open>response.json()\<close> raises
  \<open>RecursionError\<close>, for a network error whose message the console cannot encode (the
  \<open>print\<close> of the \<open>except\<close> clause raises \<open>UnicodeEncodeError\<close>), and for a public hostname the
  console cannot encode (the \<open>print\<close> before the \<open>try\<close> block raises, and no request is
  issued).
\<close>

theorem extractor_raises:
  "fst (get_all_queries_from_grafana example_config
          (\<lambda>r. Response 200 (Inr numeric_expr_dashboard)) (DASHBOARD_UID example_config))
     = Inl AttributeError
   \<and> fst (get_all_queries_from_grafana example_config
          (\<lambda>r. Response 200 (Inl (RecursionError, asc ''maximum recursion depth exceeded'')))
          (DASHBOARD_UID example_config))
     = Inl RecursionError
   \<and> fst (get_all_queries_from_grafana example_config
          (\<lambda>r. GetRaises RequestException [55296]) (DASHBOARD_UID example_config))
     = Inl UnicodeEncodeError
   \<and> get_all_queries_from_grafana (example_config\<lparr>GRAFANA_PUBLIC_DOMAIN := Some [56448]\<rparr>)
          (\<lambda>r. Response 200 (Inr (cpu_dashboard [(asc ''datasource'', JNull)]))) (DASHBOARD_UID example_config)
     = (Inl UnicodeEncodeError, [])"
  by (simp add: eval_defs)

text \<open>
  C2, amended: with a configuration value missing the extractor returns the empty
  sequence and issues no request; when the request it issued ended in a network error or
  in a body that is not JSON, with a message of the exception that the console can encode,
  or in a status other than 200, it returns the empty sequence; and when the request was
  answered with status 200 and a body of the shape of a dashboard, it returns a sequence.
\<close>

theorem extractor_failure_handling:
  assumes "get_all_queries_from_grafana cfg http_get uid = (res, reqs)"
  shows "(\<not> env_truthy (GRAFANA_URL cfg) \<or> \<not> env_truthy (GRAFANA_API_KEY cfg)
           \<or> \<not> env_truthy (GRAFANA_PUBLIC_DOMAIN cfg) \<or> \<not> env_truthy uid
            \<longrightarrow> res = Inr [] \<and> reqs = [])
       \<and> (\<forall>r. reqs = [r] \<and> listed_failure (http_get r) \<longrightarrow> res = Inr [])
       \<and> (\<forall>r body. reqs = [r] \<and> http_get r = Response 200 (Inr body) \<and> dashboard_schema body
            \<longrightarrow> (\<exists>items. res = Inr items))"
proof -
  have a: "\<not> env_truthy (GRAFANA_URL cfg) \<or> \<not> env_truthy (GRAFANA_API_KEY cfg)
           \<or> \<not> env_truthy (GRAFANA_PUBLIC_DOMAIN cfg) \<or> \<not> env_truthy uid
            \<longrightarrow> res = Inr [] \<and> reqs = []"
    using assms by (auto simp: get_all_queries_from_grafana_def)
  have bc: "res = grafana_except (grafana_try (http_get r))" if "reqs = [r]" for r
    using get_all_cases[of cfg http_get uid] assms that by auto
  have b: "\<forall>r. reqs = [r] \<and> listed_failure (http_get r) \<longrightarrow> res = Inr []"
    using bc grafana_failure by auto
  have c: "\<exists>items. res = Inr items"
    if "reqs = [r]" "http_get r = Response 200 (Inr body)" "dashboard_schema body" for r body
  proof -
    from bc[OF that(1)] that(2)
    have "res = grafana_except (grafana_try (Response 200 (Inr body)))" by simp
    then show ?thesis
      using extract_queries_schema[OF that(3)] by (simp add: grafana_ok)
  qed
  from a b c show ?thesis by blast
qed

theorem extractor_failure_handling_witness:
  "get_all_queries_from_grafana example_config
     (\<lambda>r. GetRaises RequestException (asc ''connection refused'')) (DASHBOARD_UID example_config)
     = (Inr [], [grafana_request (asc ''http://grafana'') (asc ''grafana-key'') (asc ''grafana.example'') (asc ''abcdef123'')])
   \<and> listed_failure ((\<lambda>r. GetRaises RequestException (asc ''connection refused''))
         (grafana_request (asc ''http://grafana'') (asc ''grafana-key'') (asc ''grafana.example'') (asc ''abcdef123'')))
   \<and> get_all_queries_from_grafana example_config (\<lambda>r. Response 200 (Inr (cpu_dashboard [(asc ''datasource'', JNull)])))
       (DASHBOARD_UID example_config) = (Inr [\<lparr>title = JStr (asc ''CPU''), query = asc ''sum(rate(24h))''\<rparr>], [grafana_request (asc ''http://grafana'') (asc ''grafana-key'') (asc ''grafana.example'') (asc ''abcdef123'')])
   \<and> dashboard_schema (cpu_dashboard [(asc ''datasource'', JNull)])"
proof -
  have h1: "get_all_queries_from_grafana example_config
     (\<lambda>r. GetRaises RequestException (asc ''connection refused'')) (DASHBOARD_UID example_config)
     = (Inr [], [grafana_request (asc ''http://grafana'') (asc ''grafana-key'') (asc ''grafana.example'') (asc ''abcdef123'')])"
    by (simp add: eval_defs)
  have h2: "get_all_queries_from_grafana example_config (\<lambda>r. Response 200 (Inr (cpu_dashboard [(asc ''datasource'', JNull)])))
       (DASHBOARD_UID example_config) = (Inr [\<lparr>title = JStr (asc ''CPU''), query = asc ''sum(rate(24h))''\<rparr>], [grafana_request (asc ''http://grafana'') (asc ''grafana-key'') (asc ''grafana.example'') (asc ''abcdef123'')])"
    by (simp add: eval_defs)
  have s: "dashboard_schema (cpu_dashboard [(asc ''datasource'', JNull)])"
    by (simp add: dashboard_schema_def panel_schema_def target_schema_def cpu_dashboard_def
          obj_get_def asc_def)
  have f: "listed_failure ((\<lambda>r. GetRaises RequestException (asc ''connection refused''))
         (grafana_request (asc ''http://grafana'') (asc ''grafana-key'') (asc ''grafana.example'') (asc ''abcdef123'')))"
    by (simp add: listed_failure_def asc_def encodable_def surrogate_def)
  from extractor_failure_handling[OF h1] extractor_failure_handling[OF h2] h1 h2 s f
  show ?thesis by simp
qed

text \<open>
  C3, as the claim states it, fails. With the specification's reading of a qualifying
  datasource (absent, \<open>null\<close> or typed), the target \<open>up\<close> of the panel \<open>Load\<close>, which has no
  \<open>datasource\<close> field, is expected in the output, and the extractor leaves it out. And for
  a panel whose title the console cannot encode, the \<open>print\<close> that announces its item
  raises inside the \<open>try\<close> block, and the extractor returns the empty sequence where one
  item is expected.
\<close>

theorem expected_targets_missing:
  "fst (get_all_queries_from_grafana example_config
          (\<lambda>r. Response 200 (Inr two_panel_dashboard)) (DASHBOARD_UID example_config))
     = Inr [\<lparr>title = JStr (asc ''CPU''), query = asc ''rate(x[5m])''\<rparr>]
   \<and> expected_items True two_panel_dashboard
     = [\<lparr>title = JStr (asc ''Load''), query = asc ''up''\<rparr>,
        \<lparr>title = JStr (asc ''CPU''), query = asc ''rate(x[5m])''\<rparr>]
   \<and> fst (get_all_queries_from_grafana example_config
          (\<lambda>r. Response 200 (Inr surrogate_title_dashboard)) (DASHBOARD_UID example_config))
     = Inr []
   \<and> expected_items True surrogate_title_dashboard
     = [\<lparr>title = JStr [55296], query = asc ''up''\<rparr>]"
  by (simp add: eval_defs expected_items_def dashboard_panels_def panel_items_def
        panel_qualifies_def panel_targets_def datasource_accepts_def target_counts_def
        title_of_def expected_item_def expr_text_def)

text \<open>
  C3, amended: a datasource qualifies when it is \<open>null\<close> or typed \<open>prometheus\<close>, not when it
  is absent. When the request is answered with status 200 and a JSON body of the dashboard
  shape, and the console can encode the title of every expected item, the extractor
  returns the expected sequence: for every panel that has \<open>targets\<close> and a qualifying
  datasource, one item for each of its targets that is not hidden and has a non-empty
  expression, in the order of the panels and of the targets, and nothing for any other
  target. Whatever the body, a sequence that the extractor returns is the expected one or
  the empty one.
\<close>

theorem extraction_order_and_multiplicity:
  assumes "get_all_queries_from_grafana cfg http_get uid = (res, [r])"
      and "http_get r = Response 200 (Inr body)"
  shows "(dashboard_schema body \<and> titles_printable (expected_items False body)
            \<longrightarrow> res = Inr (expected_items False body))
       \<and> (\<forall>items. res = Inr items \<longrightarrow> items = expected_items False body \<or> items = [])"
proof -
  have "res = grafana_except (grafana_try (http_get r))"
    using get_all_cases[of cfg http_get uid] assms(1) by auto
  with assms(2) have res: "res = grafana_except (grafana_try (Response 200 (Inr body)))"
    by simp
  have "dashboard_schema body \<and> titles_printable (expected_items False body)
            \<longrightarrow> res = Inr (expected_items False body)"
    using res extract_queries_schema[of body] by (simp add: grafana_ok)
  moreover have "\<forall>items. res = Inr items \<longrightarrow> items = expected_items False body \<or> items = []"
    using res extract_queries_Inr[of body]
    by (auto simp: grafana_ok split: sum.splits if_splits)
  ultimately show ?thesis by blast
qed

theorem extraction_order_and_multiplicity_witness:
  "get_all_queries_from_grafana example_config (\<lambda>r. Response 200 (Inr two_panel_dashboard))
       (DASHBOARD_UID example_config)
     = (Inr [\<lparr>title = JStr (asc ''CPU''), query = asc ''rate(x[5m])''\<rparr>], [grafana_request (asc ''http://grafana'') (asc ''grafana-key'') (asc ''grafana.example'') (asc ''abcdef123'')])
   \<and> dashboard_schema two_panel_dashboard
   \<and> titles_printable (expected_items False two_panel_dashboard)
   \<and> expected_items False two_panel_dashboard
     = [\<lparr>title = JStr (asc ''CPU''), query = asc ''rate(x[5m])''\<rparr>]"
proof -
  have h: "get_all_queries_from_grafana example_config
       (\<lambda>r. Response 200 (Inr two_panel_dashboard)) (DASHBOARD_UID example_config)
     = (Inr [\<lparr>title = JStr (asc ''CPU''), query = asc ''rate(x[5m])''\<rparr>], [grafana_request (asc ''http://grafana'') (asc ''grafana-key'') (asc ''grafana.example'') (asc ''abcdef123'')])"
    by (simp add: eval_defs)
  have s: "dashboard_schema two_panel_dashboard"
    by (simp add: dashboard_schema_def panel_schema_def target_schema_def
          two_panel_dashboard_def obj_get_def asc_def)
  from extraction_order_and_multiplicity[OF h refl]
  have e: "expected_items False two_panel_dashboard
     = [\<lparr>title = JStr (asc ''CPU''), query = asc ''rate(x[5m])''\<rparr>]"
    by simp
  then have "titles_printable (expected_items False two_panel_dashboard)"
    by (simp add: titles_printable_def value_encodable_def encodable_def surrogate_def asc_def)
  with h s e show ?thesis by simp
qed

text \<open>
  C9: every item of a sequence the extractor returns has a non-empty query string.
\<close>

theorem extracted_queries_nonempty:
  assumes "fst (get_all_queries_from_grafana cfg http_get uid) = Inr items"
      and "it \<in> set items"
  shows "query it \<noteq> []"
  using get_all_items[OF assms(1)] assms(2) by (auto simp: list_all_iff item_ok_def)

theorem extracted_queries_nonempty_witness:
  "fst (get_all_queries_from_grafana example_config (\<lambda>r. Response 200 (Inr (cpu_dashboard [(asc ''datasource'', JNull)])))
       (DASHBOARD_UID example_config)) = Inr [\<lparr>title = JStr (asc ''CPU''), query = asc ''sum(rate(24h))''\<rparr>]
   \<and> \<lparr>title = JStr (asc ''CPU''), query = asc ''sum(rate(24h))''\<rparr> \<in> set [\<lparr>title = JStr (asc ''CPU''), query = asc ''sum(rate(24h))''\<rparr>]
   \<and> query \<lparr>title = JStr (asc ''CPU''), query = asc ''sum(rate(24h))''\<rparr> \<noteq> []"
proof -
  have h: "fst (get_all_queries_from_grafana example_config (\<lambda>r. Response 200 (Inr (cpu_dashboard [(asc ''datasource'', JNull)])))
       (DASHBOARD_UID example_config)) = Inr [\<lparr>title = JStr (asc ''CPU''), query = asc ''sum(rate(24h))''\<rparr>]"
    by (simp add: eval_defs)
  have m: "\<lparr>title = JStr (asc ''CPU''), query = asc ''sum(rate(24h))''\<rparr> \<in> set [\<lparr>title = JStr (asc ''CPU''), query = asc ''sum(rate(24h))''\<rparr>]" by simp
  from extracted_queries_nonempty[OF h m] h show ?thesis by simp
qed

section \<open>The collector\<close>

text \<open>
  C5, as the claim states it, fails: when the backend raises an exception whose message
  the console cannot encode, the \<open>print\<close> of the \<open>except\<close> clause raises before the marker is
  appended; the \<open>UnicodeEncodeError\<close> leaves \<open>get_metrics\<close>, and there is no report and no
  section for the queries that follow.
\<close>

theorem unprintable_backend_error_aborts:
  "get_metrics example_config example_builtins
     (\<lambda>r. Response 200 (Inr three_target_dashboard))
     (\<lambda>w q. (Inl (PrometheusApiClientException, [55296]), w)) ()
   = (Inl UnicodeEncodeError, ())"
  by (simp add: get_metrics_def process_item_def query_try_def query_except_def eval_defs)

text \<open>
  C5, amended: when the extractor returned a non-empty sequence and the console can encode
  the message of every exception the backend raises, the report is the header followed by
  one section for every extracted query, in order, whatever the backend did for each of
  them; the section of a query for which the backend returned no series (an empty list, or
  any other false value) is its heading and the "no data" marker line, the section of a
  query for which the backend call raised \<open>PrometheusApiClientException\<close> is its heading and
  the "query failed" marker line, and for any other exception it is its heading and the
  "unknown error" marker line.
\<close>

theorem collector_sections:
  assumes "fst (get_all_queries_from_grafana cfg http_get (DASHBOARD_UID cfg)) = Inr items"
      and "items \<noteq> []"
      and "list_all result_printable (backend_results custom_query w items)"
  shows "fst (get_metrics cfg bi http_get custom_query w)
           = Inr (Some (report_header cfg
                        @ concat (map2 (section_text bi) items
                                       (backend_results custom_query w items))))
       \<and> length (backend_results custom_query w items) = length items
       \<and> (\<forall>item metrics. \<not> truthy metrics \<longrightarrow>
             query_section bi item (Inr metrics)
               = Inr (section_header bi (title item) @ no_data_marker))
       \<and> (\<forall>item. query_section bi item (Inr (JArr []))
               = Inr (section_header bi (title item) @ no_data_marker))
       \<and> (\<forall>item m. encodable m \<longrightarrow>
             query_section bi item (Inl (PrometheusApiClientException, m))
               = Inr (section_header bi (title item) @ query_failed_marker))
       \<and> (\<forall>item e m. e \<noteq> PrometheusApiClientException \<and> encodable m \<longrightarrow>
             query_section bi item (Inl (e, m))
               = Inr (section_header bi (title item) @ unknown_error_marker))"
proof -
  have ok: "list_all item_ok items"
    using get_all_items[OF assms(1)] .
  have "fst (items_loop bi custom_query w items (report_header cfg))
          = Inr (report_header cfg
                 @ concat (map2 (section_text bi) items
                                (backend_results custom_query w items)))"
    using items_loop_sections[OF ok assms(3)] .
  then have "fst (get_metrics cfg bi http_get custom_query w)
          = Inr (Some (report_header cfg
                        @ concat (map2 (section_text bi) items
                                       (backend_results custom_query w items))))"
    using assms(1,2)
    by (cases "items_loop bi custom_query w items (report_header cfg)")
       (simp add: get_metrics_def)
  then show ?thesis
    by (simp add: length_backend_results query_section_def query_try_def query_except_def)
qed

theorem collector_sections_witness:
  "fst (get_all_queries_from_grafana example_config
          (\<lambda>r. Response 200 (Inr three_target_dashboard)) (DASHBOARD_UID example_config))
     = Inr [\<lparr>title = JStr (asc ''CPU''), query = asc ''a''\<rparr>,
            \<lparr>title = JStr (asc ''CPU''), query = asc ''b''\<rparr>,
            \<lparr>title = JStr (asc ''CPU''), query = asc ''c''\<rparr>]
   \<and> list_all result_printable
       (backend_results example_backend ()
          [\<lparr>title = JStr (asc ''CPU''), query = asc ''a''\<rparr>,
           \<lparr>title = JStr (asc ''CPU''), query = asc ''b''\<rparr>,
           \<lparr>title = JStr (asc ''CPU''), query = asc ''c''\<rparr>])
   \<and> fst (get_metrics example_config example_builtins
            (\<lambda>r. Response 200 (Inr three_target_dashboard)) example_backend ())
       = Inr (Some (report_header example_config
            @ asc ''### CPU'' @ [10]
            @ [32, 32, 45, 32, 40, 53244, 47532, 32, 49892, 54665, 32, 51473, 32, 50640, 47084, 32,
              48156, 49373, 41, 10, 10]
            @ asc ''### CPU'' @ [10]
            @ [45, 32, 40, 45936, 51060, 53552, 32, 50630, 51020, 41, 10, 10]
            @ asc ''### CPU'' @ [10]
            @ [32, 32, 45, 32, 40, 50508, 32, 49688, 32, 50630, 45716, 32, 50640, 47084, 32, 48156,
              49373, 41, 10, 10]))"
proof -
  have h: "fst (get_all_queries_from_grafana example_config
          (\<lambda>r. Response 200 (Inr three_target_dashboard)) (DASHBOARD_UID example_config))
     = Inr [\<lparr>title = JStr (asc ''CPU''), query = asc ''a''\<rparr>,
            \<lparr>title = JStr (asc ''CPU''), query = asc ''b''\<rparr>,
            \<lparr>title = JStr (asc ''CPU''), query = asc ''c''\<rparr>]"
    by (simp add: eval_defs)
  have n: "[\<lparr>title = JStr (asc ''CPU''), query = asc ''a''\<rparr>,
            \<lparr>title = JStr (asc ''CPU''), query = asc ''b''\<rparr>,
            \<lparr>title = JStr (asc ''CPU''), query = asc ''c''\<rparr>] \<noteq> []"
    by simp
  have p: "list_all result_printable
       (backend_results example_backend ()
          [\<lparr>title = JStr (asc ''CPU''), query = asc ''a''\<rparr>,
           \<lparr>title = JStr (asc ''CPU''), query = asc ''b''\<rparr>,
           \<lparr>title = JStr (asc ''CPU''), query = asc ''c''\<rparr>])"
    by (simp add: example_backend_def result_printable_def asc_def encodable_def
          surrogate_def)
  have "fst (get_metrics example_config example_builtins
            (\<lambda>r. Response 200 (Inr three_target_dashboard)) example_backend ())
       = Inr (Some (report_header example_config
            @ concat (map2 (section_text example_builtins)
                [\<lparr>title = JStr (asc ''CPU''), query = asc ''a''\<rparr>,
                 \<lparr>title = JStr (asc ''CPU''), query = asc ''b''\<rparr>,
                 \<lparr>title = JStr (asc ''CPU''), query = asc ''c''\<rparr>]
                (backend_results example_backend ()
                  [\<lparr>title = JStr (asc ''CPU''), query = asc ''a''\<rparr>,
                   \<lparr>title = JStr (asc ''CPU''), query = asc ''b''\<rparr>,
                   \<lparr>title = JStr (asc ''CPU''), query = asc ''c''\<rparr>]))))"
    using collector_sections[OF h n p, of example_builtins] by blast
  then have "fst (get_metrics example_config example_builtins
            (\<lambda>r. Response 200 (Inr three_target_dashboard)) example_backend ())
       = Inr (Some (report_header example_config
            @ asc ''### CPU'' @ [10]
            @ [32, 32, 45, 32, 40, 53244, 47532, 32, 49892, 54665, 32, 51473, 32, 50640, 47084, 32,
              48156, 49373, 41, 10, 10]
            @ asc ''### CPU'' @ [10]
            @ [45, 32, 40, 45936, 51060, 53552, 32, 50630, 51020, 41, 10, 10]
            @ asc ''### CPU'' @ [10]
            @ [32, 32, 45, 32, 40, 50508, 32, 49688, 32, 50630, 45716, 32, 50640, 47084, 32, 48156,
              49373, 41, 10, 10]))"
    by (simp add: example_backend_def section_text_def query_section_def query_try_def
          query_except_def section_header_def format_value_def
          encodable_def surrogate_def query_failed_marker_def no_data_marker_def
          unknown_error_marker_def asc_def)
  with h p show ?thesis by simp
qed



section \<open>The narrative generator\<close>

text \<open>
  C7, as the claim states it, fails: when the service call raises an exception whose
  message the console cannot encode, the \<open>print\<close> of the \<open>except\<close> clause raises, and the
  function raises \<open>UnicodeEncodeError\<close> instead of returning an error string.
\<close>

theorem unprintable_service_error_raises:
  "fst (generate_report_with_gemini example_config (\<lambda>m p. Inl [55296]) (Some (asc ''data'')))
     = Inl UnicodeEncodeError"
  by (simp add: generate_report_with_gemini_def example_config_def env_truthy_def asc_def
        encodable_def surrogate_def)

text \<open>
  C7, amended: without the credential the function returns the fixed notice and makes no
  call to the service; with the credential and no or empty text it returns the other
  fixed notice, again without a call; otherwise it makes one call, and returns the text of
  the response or, when the call raised with a message that the console can encode, the
  error prefix followed by that message.
\<close>

theorem narrative_generator_outcomes:
  "(\<not> env_truthy (GEMINI_API_KEY cfg) \<longrightarrow>
      generate_report_with_gemini cfg generate_content metrics_text
        = (Inr no_api_key_notice, []))
   \<and> (env_truthy (GEMINI_API_KEY cfg) \<and> \<not> env_truthy metrics_text \<longrightarrow>
      generate_report_with_gemini cfg generate_content metrics_text
        = (Inr no_metrics_notice, []))
   \<and> (env_truthy (GEMINI_API_KEY cfg) \<and> env_truthy metrics_text \<longrightarrow>
      (\<exists>text. metrics_text = Some text
         \<and> snd (generate_report_with_gemini cfg generate_content metrics_text)
             = [(asc ''gemini-2.5-pro'', prompt_before_data @ text @ prompt_after_data)]
         \<and> (\<forall>response_text.
               generate_content (asc ''gemini-2.5-pro'')
                 (prompt_before_data @ text @ prompt_after_data) = Inr response_text
               \<longrightarrow> fst (generate_report_with_gemini cfg generate_content metrics_text)
                     = Inr response_text)
         \<and> (\<forall>e.
               generate_content (asc ''gemini-2.5-pro'')
                 (prompt_before_data @ text @ prompt_after_data) = Inl e \<and> encodable e
               \<longrightarrow> fst (generate_report_with_gemini cfg generate_content metrics_text)
                     = Inr (gemini_error_prefix @ e))))"
  by (cases metrics_text)
     (auto simp: generate_report_with_gemini_def env_truthy_def split: sum.splits)

theorem narrative_generator_outcomes_witness:
  "\<not> env_truthy (GEMINI_API_KEY (example_config\<lparr>GEMINI_API_KEY := None\<rparr>))
   \<and> generate_report_with_gemini (example_config\<lparr>GEMINI_API_KEY := None\<rparr>)
         (\<lambda>m p. Inr (asc ''ok'')) (Some (asc ''data'')) = (Inr no_api_key_notice, [])
   \<and> env_truthy (GEMINI_API_KEY example_config) \<and> \<not> env_truthy (Some [])
   \<and> generate_report_with_gemini example_config (\<lambda>m p. Inr (asc ''ok'')) (Some [])
       = (Inr no_metrics_notice, [])
   \<and> env_truthy (Some (asc ''data'')) \<and> encodable (asc ''quota'')
   \<and> fst (generate_report_with_gemini example_config (\<lambda>m p. Inl (asc ''quota''))
            (Some (asc ''data''))) = Inr (gemini_error_prefix @ asc ''quota'')"
  using narrative_generator_outcomes
          [of "example_config\<lparr>GEMINI_API_KEY := None\<rparr>" "\<lambda>m p. Inr (asc ''ok'')"
              "Some (asc ''data'')"]
        narrative_generator_outcomes [of example_config "\<lambda>m p. Inr (asc ''ok'')" "Some []"]
        narrative_generator_outcomes
          [of example_config "\<lambda>m p. Inl (asc ''quota'')" "Some (asc ''data'')"]
  by (simp add: env_truthy_def example_config_def asc_def encodable_def surrogate_def)

section \<open>The notifier\<close>




end
